theory Spec2Isabelle
  imports Complex_Main
begin

section \<open>SVG-Gen: request composition, response extraction and the generation lifecycle\<close>

text \<open>
  A shallow embedding of the three TypeScript modules of the repository:
  \<^item> \<^verbatim>\<open>types.ts\<close>: the status enumeration and the data interfaces;
  \<^item> \<^verbatim>\<open>services/geminiService.ts\<close>: \<^verbatim>\<open>getTemperatureForStyle\<close>,
    \<^verbatim>\<open>getStyleInstructions\<close> and \<^verbatim>\<open>generateSvgFromPrompt\<close>;
  \<^item> \<^verbatim>\<open>components/InputSection.tsx\<close> (\<^verbatim>\<open>handleSubmit\<close> and the input state) and
    \<^verbatim>\<open>App.tsx\<close> (\<^verbatim>\<open>handleGenerate\<close> and the three state slots).

  JavaScript strings are modelled as \<^typ>\<open>string\<close>: a \<^typ>\<open>char\<close> is a code unit below
  256, and code units from 256 on are outside the model. White space is the white
  space of JavaScript in that range. Case mapping acts on the ASCII letters only: the
  code upper-cases the two ASCII style names alone, and it looks at lower-cased and
  case-folded text only through comparisons with ASCII literals, where this agrees
  with JavaScript. Every literal of the source is ASCII.
  A thrown exception is a value \<open>Inl e\<close> of a sum type; the generative service, the
  UUID generator and the clock are parameters.
\<close>

subsection \<open>\<^verbatim>\<open>types.ts\<close>\<close>

datatype GenerationStatus = IDLE | LOADING | SUCCESS | ERROR

record GeneratedSvg =
  id :: string
  content :: string
  prompt :: string
  timestamp :: nat

text \<open>\<^verbatim>\<open>details?\<close> and \<^verbatim>\<open>suggestion?\<close> are optional: \<open>None\<close> is \<^verbatim>\<open>undefined\<close>.\<close>

record ApiError =
  message :: string
  details :: "string option"
  suggestion :: "string option"

record ImageData =
  data :: string
  mimeType :: string
  previewUrl :: string

text \<open>The fourteen members of the union type \<^verbatim>\<open>SvgStyle\<close>, in the order of the array
  \<^verbatim>\<open>STYLES\<close> of \<^verbatim>\<open>InputSection.tsx\<close>. The service takes the style as a plain
  \<^verbatim>\<open>string\<close>, so a style is a string here as well.\<close>

definition STYLES :: "string list" where
  "STYLES =
    [''Vector Trace'', ''Flat'', ''Material'', ''Line Art'', ''Low Poly'', ''Minimalist'',
     ''Isometric'', ''Blueprint'', ''Cyberpunk'', ''Gradient'', ''Pixel Art'', ''Hand Drawn'',
     ''Pop Art'', ''Paper Cutout'']"

datatype TraceComplexity = Low | Medium | High
datatype TraceColors = Monochrome | Limited | Full
datatype TraceStrokeWeight = Thin | Standard | Thick
datatype TraceLineCap = Butt | Round | Square
datatype TraceLineFill = NoFill | Solid

record TraceSettings =
  complexity :: TraceComplexity
  colors :: TraceColors
  strokeWeight :: TraceStrokeWeight
  lineCap :: TraceLineCap
  lineFill :: TraceLineFill

text \<open>The string a line-cap value is in the source (\<^verbatim>\<open>'Butt' | 'Round' | 'Square'\<close>).\<close>

fun lineCap_text :: "TraceLineCap \<Rightarrow> string" where
  "lineCap_text Butt = ''Butt''"
| "lineCap_text Round = ''Round''"
| "lineCap_text Square = ''Square''"

subsection \<open>String primitives of the JavaScript runtime\<close>

definition upper_letters :: string where
  "upper_letters = ''ABCDEFGHIJKLMNOPQRSTUVWXYZ''"

definition lower_letters :: string where
  "lower_letters = ''abcdefghijklmnopqrstuvwxyz''"

definition lower_char :: "char \<Rightarrow> char" where
  "lower_char c = (case map_of (zip upper_letters lower_letters) c of Some l \<Rightarrow> l | None \<Rightarrow> c)"

definition upper_char :: "char \<Rightarrow> char" where
  "upper_char c = (case map_of (zip lower_letters upper_letters) c of Some u \<Rightarrow> u | None \<Rightarrow> c)"

definition toLowerCase :: "string \<Rightarrow> string" where
  "toLowerCase s = map lower_char s"

definition toUpperCase :: "string \<Rightarrow> string" where
  "toUpperCase s = map upper_char s"

text \<open>White space and line terminators of \<^verbatim>\<open>String.prototype.trim\<close> below 256: tab,
  line feed, vertical tab, form feed, carriage return, space, no-break space.\<close>

definition is_space :: "char \<Rightarrow> bool" where
  "is_space c =
    (c \<in> set [CHR 0x09, CHR 0x0A, CHR 0x0B, CHR 0x0C, CHR 0x0D, CHR 0x20, CHR 0xA0])"

definition trim :: "string \<Rightarrow> string" where
  "trim s = rev (dropWhile is_space (rev (dropWhile is_space s)))"

text \<open>\<open>starts_with pat t\<close>: the literal \<open>pat\<close> stands at the start of \<open>t\<close>.\<close>

fun starts_with :: "string \<Rightarrow> string \<Rightarrow> bool" where
  "starts_with [] t = True"
| "starts_with (p # ps) [] = False"
| "starts_with (p # ps) (c # cs) = (p = c \<and> starts_with ps cs)"

text \<open>\<^verbatim>\<open>t.includes(pat)\<close>.\<close>

fun includes_str :: "string \<Rightarrow> string \<Rightarrow> bool" where
  "includes_str [] pat = (pat = [])"
| "includes_str (c # cs) pat = (starts_with pat (c # cs) \<or> includes_str cs pat)"

text \<open>\<^verbatim>\<open>t.replace(/pat/g, '')\<close> for a literal, non-empty \<open>pat\<close>: scanning from the left,
  every occurrence is dropped and the scan goes on behind it.\<close>

fun remove_all :: "string \<Rightarrow> string \<Rightarrow> string" where
  "remove_all pat [] = []"
| "remove_all pat (c # cs) =
     (if pat \<noteq> [] \<and> starts_with pat (c # cs) then remove_all pat (drop (length pat - 1) cs)
      else c # remove_all pat cs)"

text \<open>Truthiness of an optional string: \<^verbatim>\<open>undefined\<close> and \<^verbatim>\<open>''\<close> are falsy.\<close>

fun truthy :: "string option \<Rightarrow> bool" where
  "truthy None = False"
| "truthy (Some s) = (s \<noteq> [])"

text \<open>\<^verbatim>\<open>a || b\<close> on strings.\<close>

definition or_else :: "string option \<Rightarrow> string \<Rightarrow> string" where
  "or_else a b = (case a of Some s \<Rightarrow> (if s \<noteq> [] then s else b) | None \<Rightarrow> b)"

subsection \<open>\<^verbatim>\<open>geminiService.ts\<close>: temperature and style rules\<close>

definition getTemperatureForStyle :: "string \<Rightarrow> real" where
  "getTemperatureForStyle style =
    (if style = ''Vector Trace'' \<or> style = ''Blueprint'' \<or> style = ''Pixel Art''
        \<or> style = ''Isometric'' then 0.15
     else if style = ''Flat'' \<or> style = ''Material'' \<or> style = ''Minimalist''
        \<or> style = ''Low Poly'' then 0.3
     else if style = ''Hand Drawn'' \<or> style = ''Gradient'' \<or> style = ''Cyberpunk''
        \<or> style = ''Pop Art'' then 0.6
     else 0.4)"

text \<open>The object literal \<^verbatim>\<open>instructions\<close>, as the list of its own properties.\<close>

definition instructions :: "(string \<times> string) list" where
  \<open>instructions =
  [(''Vector Trace'',
    ''Goal: PHOTOREALISTIC REPRODUCTION. Trace the input image exactly. Use as many paths and gradients as necessary to capture the full detail, lighting, and shading of the original image. Do not simplify or stylize unless asked.''),
   (''Flat'',
    ''Goal: Clean, modern flat design. No gradients, drop shadows, or textures. Use solid colors and geometric precision.''),
   (''Material'',
    ''Goal: Google Material Design. Use subtle depth, card-like layers, slight drop shadows (simulated with semi-transparent paths), and vibrant standard colors.''),
   (''Line Art'',
    ''Goal: Monoline vector illustration. Use only strokes (stroke-width="2" or similar), no fill (or white fill). Focus on the outline and essential details.''),
   (''Blueprint'',
    ''Goal: Technical architectural blueprint. Background color must be #0f4c81 (Classic Blue) or #0022AA. All lines should be white. Use dashed lines for hidden details. Add measurement markers if applicable.''),
   (''Cyberpunk'',
    ''Goal: Futuristic, high-tech aesthetic. Use a dark background (#000 or #111). Neon colors: Cyan (#00f3ff), Magenta (#ff00ff), Lime Green. Use glitch effects (jagged paths) and glowing elements.''),
   (''Low Poly'',
    ''Goal: Low Polygon Art. Construct the image entirely out of non-overlapping triangles. No curves. Use flat shading for each triangle to create a faceted 3D effect.''),
   (''Isometric'',
    ''Goal: 30-degree isometric projection. Create a pseudo-3D look. maintain consistent parallel lines. clean geometric structures.''),
   (''Pixel Art'',
    ''Goal: 8-bit or 16-bit retro style. Use small rect elements to simulate pixels. Keep all "pixels" aligned to a strict grid.''),
   (''Pop Art'',
    ''Goal: Warhol/Lichtenstein style. Bold black outlines, high contrast, Ben-Day dots (simulated with pattern fills if possible, or simple dots), and vibrant primary colors.''),
   (''Paper Cutout'',
    ''Goal: Layered paper craft effect. Use shapes with slightly offset semi-transparent black duplicates underneath to simulate drop shadows and depth between layers.'')]\<close>

definition generic_rule :: string where
  "generic_rule = ''Goal: High quality vector art.''"

text \<open>
  \<^verbatim>\<open>getStyleInstructions\<close>. \<open>rule\<close> is \<^verbatim>\<open>instructions[style] || '...'\<close>; the settings
  text is built by appending to \<^verbatim>\<open>settingsRefinement\<close> step by step (\<open>sr0\<close> to \<open>sr4\<close>).
  The two \<^verbatim>\<open>switch\<close> defaults coincide with the cases \<^verbatim>\<open>'Medium'\<close>, \<^verbatim>\<open>'Full'\<close> and
  \<^verbatim>\<open>'Standard'\<close>; the guards \<^verbatim>\<open>if (traceSettings.strokeWeight)\<close> and
  \<^verbatim>\<open>if (traceSettings.lineCap)\<close> test non-empty strings and always pass. The lookup is the
  one of the object's own properties (names inherited from \<^verbatim>\<open>Object.prototype\<close> are
  not style names).
\<close>

definition getStyleInstructions :: "string \<Rightarrow> TraceSettings option \<Rightarrow> string" where
  \<open>getStyleInstructions style traceSettings =
    (let rule = or_else (map_of instructions style) generic_rule in
     case traceSettings of
       None \<Rightarrow> rule
     | Some ts \<Rightarrow>
         if style = ''Vector Trace'' \<or> style = ''Line Art'' then
           (let sr0 = ''\<newline>'' @ toUpperCase style @ '' SETTINGS:'';
                sr1 =
                  (if style = ''Vector Trace'' then
                     (sr0 @
                       (case complexity ts of
                          Low \<Rightarrow> ''\<newline>- SIMPLIFY PATHS: Use smooth Bezier curves with minimal nodes. Remove small details and noise. Abstract shapes into clean geometry.''
                        | High \<Rightarrow> ''\<newline>- HIGH FIDELITY: Capture fine details, textures, and small elements. Use precise paths. Do not simplify.''
                        | Medium \<Rightarrow> ''\<newline>- BALANCED DETAIL: Standard vectorization. Clean up noise but keep main features distinct.'')) @
                       (case colors ts of
                          Monochrome \<Rightarrow> ''\<newline>- MONOCHROME: Use ONLY black and white (or foreground/background). No grayscale, no gradients.''
                        | Limited \<Rightarrow> ''\<newline>- LIMITED PALETTE: Use a maximum of 16 distinct colors. Group similar shades (quantization). Solid fills only, minimize gradients.''
                        | Full \<Rightarrow> ''\<newline>- FULL COLOR: Use full color spectrum. Use gradients and complex shading if necessary to match the original.'')
                   else sr0);
                sr2 =
                  (if style = ''Line Art'' then
                     (if lineFill ts = Solid then
                        sr1 @ ''\<newline>- FILL STYLE: Solid Fill. Fill closed shapes with the same color as the outline (or black). Do not use fill='none'. Create solid silhouettes or filled illustrations.''
                      else
                        sr1 @ ''\<newline>- FILL STYLE: No Fill (Stroke Only). Ensure `fill="none"` for all paths. Rely entirely on strokes to define the image.'')
                   else sr1);
                sr3 =
                  sr2 @
                    (case strokeWeight ts of
                       Thin \<Rightarrow> ''\<newline>- STROKE WEIGHT: Thin lines (0.5px - 1px) where strokes are used.''
                     | Thick \<Rightarrow> ''\<newline>- STROKE WEIGHT: Thick, bold lines (3px - 5px) where strokes are used.''
                     | Standard \<Rightarrow> ''\<newline>- STROKE WEIGHT: Standard line width (1px - 2px) where strokes are used.'');
                sr4 =
                  sr3 @ ''\<newline>- STROKE LINECAP: Ensure any stroked paths use 'stroke-linecap="'' @
                    toLowerCase (lineCap_text (lineCap ts)) @ ''"'.''
            in rule @ sr4)
         else rule)\<close>

text \<open>
  The per-field directives of the settings block, as the enum-to-text tables the
  specification speaks of. They are what the theorem on the settings block compares
  \<open>getStyleInstructions\<close> with.
\<close>

fun complexity_directive :: "TraceComplexity \<Rightarrow> string" where
  "complexity_directive Low = ''\<newline>- SIMPLIFY PATHS: Use smooth Bezier curves with minimal nodes. Remove small details and noise. Abstract shapes into clean geometry.''"
| "complexity_directive Medium = ''\<newline>- BALANCED DETAIL: Standard vectorization. Clean up noise but keep main features distinct.''"
| "complexity_directive High = ''\<newline>- HIGH FIDELITY: Capture fine details, textures, and small elements. Use precise paths. Do not simplify.''"

fun colors_directive :: "TraceColors \<Rightarrow> string" where
  "colors_directive Monochrome = ''\<newline>- MONOCHROME: Use ONLY black and white (or foreground/background). No grayscale, no gradients.''"
| "colors_directive Limited = ''\<newline>- LIMITED PALETTE: Use a maximum of 16 distinct colors. Group similar shades (quantization). Solid fills only, minimize gradients.''"
| "colors_directive Full = ''\<newline>- FULL COLOR: Use full color spectrum. Use gradients and complex shading if necessary to match the original.''"

fun fill_directive :: "TraceLineFill \<Rightarrow> string" where
  \<open>fill_directive Solid = ''\<newline>- FILL STYLE: Solid Fill. Fill closed shapes with the same color as the outline (or black). Do not use fill='none'. Create solid silhouettes or filled illustrations.''\<close>
| \<open>fill_directive NoFill = ''\<newline>- FILL STYLE: No Fill (Stroke Only). Ensure `fill="none"` for all paths. Rely entirely on strokes to define the image.''\<close>

fun stroke_directive :: "TraceStrokeWeight \<Rightarrow> string" where
  "stroke_directive Thin = ''\<newline>- STROKE WEIGHT: Thin lines (0.5px - 1px) where strokes are used.''"
| "stroke_directive Standard = ''\<newline>- STROKE WEIGHT: Standard line width (1px - 2px) where strokes are used.''"
| "stroke_directive Thick = ''\<newline>- STROKE WEIGHT: Thick, bold lines (3px - 5px) where strokes are used.''"

fun cap_directive :: "TraceLineCap \<Rightarrow> string" where
  \<open>cap_directive Butt = ''\<newline>- STROKE LINECAP: Ensure any stroked paths use 'stroke-linecap="butt"'.''\<close>
| \<open>cap_directive Round = ''\<newline>- STROKE LINECAP: Ensure any stroked paths use 'stroke-linecap="round"'.''\<close>
| \<open>cap_directive Square = ''\<newline>- STROKE LINECAP: Ensure any stroked paths use 'stroke-linecap="square"'.''\<close>

text \<open>The twelve style names that \<open>getTemperatureForStyle\<close> lists in a \<^verbatim>\<open>case\<close>.\<close>

definition banded_styles :: "string list" where
  "banded_styles =
    [''Vector Trace'', ''Blueprint'', ''Pixel Art'', ''Isometric'',
     ''Flat'', ''Material'', ''Minimalist'', ''Low Poly'',
     ''Hand Drawn'', ''Gradient'', ''Cyberpunk'', ''Pop Art'']"

text \<open>The initial trace settings of \<^verbatim>\<open>InputSection\<close>.\<close>

definition initial_traceSettings :: TraceSettings where
  "initial_traceSettings =
    \<lparr>complexity = Medium, colors = Limited, strokeWeight = Standard, lineCap = Round,
     lineFill = NoFill\<rparr>"

subsection \<open>\<^verbatim>\<open>geminiService.ts\<close>: the request\<close>

record ImagePart =
  inline_data :: string
  inline_mimeType :: string

text \<open>\<^verbatim>\<open>contents\<close> is the user prompt alone, or the image part followed by a text part.\<close>

datatype contents = TextOnly string | Parts ImagePart string

record config =
  systemInstruction :: string
  temperature :: real
  topP :: real
  topK :: nat

record request =
  model :: string
  req_contents :: contents
  req_config :: config

definition systemPrompt :: "string \<Rightarrow> string \<Rightarrow> string" where
  \<open>systemPrompt style styleRules =
    ''\<newline>'' @
    ''      You are a world-class expert in Scalable Vector Graphics (SVG) design and coding. \<newline>'' @
    ''      Your task is to generate a high-quality, visually stunning, and detailed SVG based on the user's request.\<newline>'' @
    ''      \<newline>'' @
    ''      STYLE PROTOCOL: "'' @ style @ ''"\<newline>'' @
    ''      '' @ styleRules @ ''\<newline>'' @
    ''\<newline>'' @
    ''      TECHNICAL GUIDELINES:\<newline>'' @
    ''      1.  **Output Format**: Return ONLY the raw SVG code. No markdown, no code blocks, no text explanations.\<newline>'' @
    ''      2.  **Responsiveness**: Always include a `viewBox` attribute (e.g., "0 0 512 512"). Do not hardcode `width` and `height` attributes on the root svg tag, or set them to '100%'.\<newline>'' @
    ''      3.  **Optimization**: \<newline>'' @
    ''          - Use `<path>` elements primarily for complex shapes.\<newline>'' @
    ''          - Optimize coordinates (max 2 decimal places) to keep code concise.\<newline>'' @
    ''          - Group related elements with `<g>`.\<newline>'' @
    ''      4.  **Self-Contained**: No external image references (`<image href="...">`). Everything must be drawn with vectors.\<newline>'' @
    ''      5.  **Quality**: Ensure paths are closed where appropriate. Avoid intersecting self-overlapping paths that cause rendering artifacts.\<newline>'' @
    ''    ''\<close>

text \<open>The two user templates. The first is the branch \<^verbatim>\<open>if (imagePart)\<close>, with
  \<^verbatim>\<open>prompt || 'Convert to SVG'\<close> interpolated; the second is the text-only branch.\<close>

definition userPrompt :: "string \<Rightarrow> ImagePart option \<Rightarrow> string \<Rightarrow> string" where
  \<open>userPrompt p imagePart style =
    (case imagePart of
       Some part \<Rightarrow>
         ''\<newline>'' @
         ''      Reference Image provided. \<newline>'' @
         ''      Task: Convert this image into an SVG following the "'' @ style @ ''" style.\<newline>'' @
         ''      \<newline>'' @
         ''      Specific details from user: "'' @ or_else (Some p) ''Convert to SVG'' @ ''"\<newline>'' @
         ''      \<newline>'' @
         ''      '' @
         (if style = ''Vector Trace''
          then ''CRITICAL: Trace the image according to the TRACE CONFIGURATION in system instructions.''
          else ''Interpret the image content but strictly apply the requested artistic style.'') @
         ''\<newline>'' @
         ''      ''
     | None \<Rightarrow>
         ''\<newline>'' @
         ''      Create an SVG artwork of: "'' @ p @ ''".\<newline>'' @
         ''      Style: '' @ style @ ''\<newline>'' @
         ''      '')\<close>

text \<open>The argument of \<^verbatim>\<open>ai.models.generateContent\<close>.\<close>

definition build_request ::
  "string \<Rightarrow> ImagePart option \<Rightarrow> string \<Rightarrow> TraceSettings option \<Rightarrow> request" where
  "build_request p imagePart style ts =
    (let styleRules = getStyleInstructions style ts;
         sys = systemPrompt style styleRules;
         usr = userPrompt p imagePart style
     in \<lparr>model = ''gemini-3-pro-preview'',
         req_contents = (case imagePart of Some part \<Rightarrow> Parts part usr | None \<Rightarrow> TextOnly usr),
         req_config =
           \<lparr>systemInstruction = sys, temperature = getTemperatureForStyle style,
            topP = 0.95, topK = 40\<rparr>\<rparr>)"

subsection \<open>\<^verbatim>\<open>geminiService.ts\<close>: extraction of the markup\<close>

text \<open>
  The regular expression \<^verbatim>\<open>/<svg[\s\S]*?<\/svg>/i\<close>, run the way a backtracking matcher
  runs it. With the flag \<^verbatim>\<open>i\<close> two characters match when their canonical (upper-case)
  forms agree. \<open>matches_ci pat t\<close>: the literal \<open>pat\<close> matches at the start of \<open>t\<close>.
\<close>

fun matches_ci :: "string \<Rightarrow> string \<Rightarrow> bool" where
  "matches_ci [] t = True"
| "matches_ci (p # ps) [] = False"
| "matches_ci (p # ps) (c # cs) = (upper_char p = upper_char c \<and> matches_ci ps cs)"

text \<open>\<^verbatim>\<open>[\s\S]*?<\/svg>\<close>: the lazy star first tries the end tag where it stands and takes
  one more character only when that fails. The result is the text consumed.\<close>

fun lazy_to_end_tag :: "string \<Rightarrow> string option" where
  "lazy_to_end_tag [] = None"
| "lazy_to_end_tag (c # cs) =
     (if matches_ci ''</svg>'' (c # cs) then Some (take 6 (c # cs))
      else map_option ((#) c) (lazy_to_end_tag cs))"

text \<open>One attempt of the whole pattern at the start of \<open>t\<close>.\<close>

definition match_here :: "string \<Rightarrow> string option" where
  "match_here t =
    (if matches_ci ''<svg'' t then map_option ((@) (take 4 t)) (lazy_to_end_tag (drop 4 t))
     else None)"

text \<open>\<^verbatim>\<open>rawText.match(...)\<close>: the attempts go from left to right, the first that succeeds
  is the match (\<^verbatim>\<open>svgMatch[0]\<close>); \<open>None\<close> is \<^verbatim>\<open>null\<close>.\<close>

fun svgMatch :: "string \<Rightarrow> string option" where
  "svgMatch [] = None"
| "svgMatch (c # cs) =
     (case match_here (c # cs) of Some m \<Rightarrow> Some m | None \<Rightarrow> svgMatch cs)"

text \<open>A JavaScript error object: \<^verbatim>\<open>message\<close>, and the properties the service attaches.
  \<open>None\<close> is \<^verbatim>\<open>undefined\<close>.\<close>

datatype js_error =
  JsError (err_message: "string option") (err_details: "string option")
    (err_suggestion: "string option") (originalError: "js_error option")

definition cleaned :: "string \<Rightarrow> string" where
  "cleaned rawText =
    trim (remove_all ''```'' (remove_all ''```svg'' (remove_all ''```xml'' rawText)))"

definition noSvgError :: js_error where
  "noSvgError =
    JsError (Some ''Generation Format Error'')
      (Some ''The model generated a response but no valid SVG code was found.'')
      (Some ''Try simplifying your prompt or selecting the 'Flat' style which is more consistent.'')
      None"

text \<open>The part of the \<^verbatim>\<open>try\<close> block behind the service call (from \<^verbatim>\<open>rawText\<close> on):
  the operation the specification calls \<^verbatim>\<open>interpret\<close>. \<open>Inl\<close> is a \<^verbatim>\<open>throw\<close>.
  \<open>from_cleaned\<close> is what follows the first \<^verbatim>\<open>if\<close> when it does not return.\<close>

definition from_cleaned :: "string \<Rightarrow> js_error + string" where
  "from_cleaned rawText =
    (if includes_str (cleaned rawText) ''<svg'' \<and> includes_str (cleaned rawText) ''</svg>''
     then Inr (cleaned rawText)
     else Inl noSvgError)"

definition interpret_text :: "string \<Rightarrow> js_error + string" where
  "interpret_text rawText =
    (case svgMatch rawText of
       Some m \<Rightarrow> (if m \<noteq> [] then Inr m else from_cleaned rawText)
     | None \<Rightarrow> from_cleaned rawText)"

text \<open>The \<^verbatim>\<open>catch\<close> block. \<open>classify\<close> builds \<^verbatim>\<open>customError\<close> from the lower-cased
  message, the first branch that applies wins; \<open>on_catch\<close> first rethrows an error that
  has a (truthy) suggestion. The call of \<^verbatim>\<open>console.error\<close> is left out.\<close>

definition classify :: "js_error \<Rightarrow> js_error" where
  "classify e =
    (let errorMsg = toLowerCase (or_else (err_message e) []) in
     if includes_str errorMsg ''safety'' \<or> includes_str errorMsg ''blocked'' then
       JsError (Some ''Content Flagged'')
         (Some ''The request triggered the AI's safety filters.'')
         (Some ''Try rephrasing your prompt to be more abstract or removing sensitive keywords.'')
         (Some e)
     else if includes_str errorMsg ''429'' \<or> includes_str errorMsg ''quota''
         \<or> includes_str errorMsg ''exhausted'' then
       JsError (Some ''System Overloaded'')
         (Some ''API quota exceeded or system is currently busy.'')
         (Some ''Please wait a minute before trying again.'')
         (Some e)
     else if includes_str errorMsg ''400'' \<or> includes_str errorMsg ''invalid argument'' then
       JsError (Some ''Invalid Request'')
         (Some ''The model rejected the input, possibly due to image format or size.'')
         (Some ''Try using a smaller image (under 4MB) or a standard format like JPG/PNG.'')
         (Some e)
     else if includes_str errorMsg ''apikey'' \<or> includes_str errorMsg ''403'' then
       JsError (Some ''Authentication Error'')
         (Some ''There is an issue with the API key.'')
         (Some ''Please check your environment configuration.'')
         (Some e)
     else
       JsError (Some ''Connection Error'')
         (Some (or_else (err_message e) ''An unexpected error occurred.''))
         (Some ''Check your internet connection or try again later.'')
         (Some e))"

definition on_catch :: "js_error \<Rightarrow> js_error" where
  "on_catch e = (if truthy (err_suggestion e) then e else classify e)"

text \<open>What the awaited service call does: it resolves with a response whose
  \<^verbatim>\<open>text\<close> may be undefined, or it throws.\<close>

datatype service_result = Resolves "string option" | Throws js_error

definition generateSvgFromPrompt ::
  "(request \<Rightarrow> service_result) \<Rightarrow> string \<Rightarrow> ImagePart option \<Rightarrow> string \<Rightarrow>
     TraceSettings option \<Rightarrow> js_error + string" where
  "generateSvgFromPrompt ai p imagePart style ts =
    (case
       (case ai (build_request p imagePart style ts) of
          Throws e \<Rightarrow> Inl e
        | Resolves text \<Rightarrow> interpret_text (or_else text []))
     of
       Inl e \<Rightarrow> Inl (on_catch e)
     | Inr svg \<Rightarrow> Inr svg)"

subsection \<open>\<^verbatim>\<open>InputSection.tsx\<close>: the form\<close>

record input_state =
  input :: string
  selectedImage :: "ImageData option"
  selectedStyle :: string
  traceSettings :: TraceSettings

definition initial_input :: input_state where
  "initial_input =
    \<lparr>input = [], selectedImage = None, selectedStyle = ''Flat'',
     traceSettings = initial_traceSettings\<rparr>"

text \<open>The arguments of one call of \<^verbatim>\<open>onGenerate\<close>.\<close>

record generate_call =
  call_prompt :: string
  call_image :: "ImageData option"
  call_style :: string
  call_traceSettings :: "TraceSettings option"

text \<open>\<^verbatim>\<open>handleSubmit\<close>, given the form and the \<^verbatim>\<open>status\<close> property: the list of the
  calls of \<^verbatim>\<open>onGenerate\<close> it makes.\<close>

definition handleSubmit :: "input_state \<Rightarrow> GenerationStatus \<Rightarrow> generate_call list" where
  "handleSubmit f st =
    (if (trim (input f) \<noteq> [] \<or> selectedImage f \<noteq> None) \<and> st \<noteq> LOADING then
       [\<lparr>call_prompt = trim (input f), call_image = selectedImage f,
         call_style = selectedStyle f,
         call_traceSettings =
           (if selectedStyle f = ''Vector Trace'' \<or> selectedStyle f = ''Line Art''
            then Some (traceSettings f) else None)\<rparr>]
     else [])"

text \<open>The end of \<^verbatim>\<open>processFile\<close> (\<^verbatim>\<open>reader.onloadend\<close>) and \<^verbatim>\<open>clearImage\<close>. Both
  test the \<^verbatim>\<open>selectedStyle\<close> of the render they were created in (\<open>seen\<close>), and
  their setters act on the state \<open>f\<close> the next render will have.\<close>

definition fileLoaded :: "string \<Rightarrow> ImageData \<Rightarrow> input_state \<Rightarrow> input_state" where
  "fileLoaded seen img f =
    (let f1 = f\<lparr>selectedImage := Some img\<rparr> in
     if seen = ''Flat'' then f1\<lparr>selectedStyle := ''Vector Trace''\<rparr> else f1)"

definition clearImage :: "string \<Rightarrow> input_state \<Rightarrow> input_state" where
  "clearImage seen f =
    (let f1 = f\<lparr>selectedImage := None\<rparr> in
     if seen = ''Vector Trace'' then f1\<lparr>selectedStyle := ''Flat''\<rparr> else f1)"

subsection \<open>\<^verbatim>\<open>App.tsx\<close>: \<^verbatim>\<open>handleGenerate\<close> and the lifecycle\<close>

record app_state =
  status :: GenerationStatus
  currentSvg :: "GeneratedSvg option"
  error :: "ApiError option"

definition initial_app :: app_state where
  "initial_app = \<lparr>status = IDLE, currentSvg = None, error = None\<rparr>"

text \<open>\<^verbatim>\<open>handleGenerate\<close> up to its \<^verbatim>\<open>await\<close>: the three state setters.\<close>

definition handleGenerate_start :: "app_state \<Rightarrow> app_state" where
  "handleGenerate_start a = a\<lparr>status := LOADING, error := None, currentSvg := None\<rparr>"

text \<open>The awaited call, with \<^verbatim>\<open>imagePart\<close> built from the image.\<close>

definition handleGenerate_await ::
  "(request \<Rightarrow> service_result) \<Rightarrow> generate_call \<Rightarrow> js_error + string" where
  "handleGenerate_await ai c =
    generateSvgFromPrompt ai (call_prompt c)
      (map_option (\<lambda>image. \<lparr>inline_data = data image, inline_mimeType = mimeType image\<rparr>)
         (call_image c))
      (call_style c) (call_traceSettings c)"

text \<open>\<^verbatim>\<open>err.toString()\<close> of an \<^verbatim>\<open>Error\<close> object (its name is \<^verbatim>\<open>Error\<close>).\<close>

definition error_toString :: "js_error \<Rightarrow> string" where
  "error_toString e =
    (let msg = (case err_message e of Some m \<Rightarrow> m | None \<Rightarrow> []) in
     if msg = [] then ''Error'' else ''Error: '' @ msg)"

text \<open>\<^verbatim>\<open>handleGenerate\<close> behind its \<^verbatim>\<open>await\<close>: \<open>Inr\<close> goes on in the \<^verbatim>\<open>try\<close> block,
  \<open>Inl\<close> enters the \<^verbatim>\<open>catch\<close> block. \<open>uuid\<close> is the value of \<^verbatim>\<open>crypto.randomUUID()\<close>
  and \<open>now\<close> the value of \<^verbatim>\<open>Date.now()\<close>.\<close>

definition handleGenerate_finish ::
  "generate_call \<Rightarrow> js_error + string \<Rightarrow> string \<Rightarrow> nat \<Rightarrow> app_state \<Rightarrow> app_state" where
  "handleGenerate_finish c outcome uuid now a =
    (case outcome of
       Inr svgContent \<Rightarrow>
         a\<lparr>currentSvg :=
             Some \<lparr>id = uuid, content = svgContent,
                   prompt =
                     (if call_prompt c \<noteq> [] then call_prompt c
                      else if call_image c \<noteq> None then ''Image to SVG Conversion''
                      else ''Generated SVG''),
                   timestamp = now\<rparr>,
           status := SUCCESS\<rparr>
     | Inl err \<Rightarrow>
         a\<lparr>status := ERROR,
           error :=
             Some \<lparr>message = or_else (err_message err) ''Generation Failed'',
                   details =
                     Some (or_else (err_details err)
                       (or_else (Some (error_toString err))
                          ''An unexpected error occurred while contacting Gemini.'')),
                   suggestion = err_suggestion err\<rparr>\<rparr>)"

text \<open>
  The page as a whole. A component function reads the state of its last render: the
  handlers of that render hold these values (\<open>app\<close> and \<open>form\<close>, the \<^verbatim>\<open>status\<close>
  property of \<^verbatim>\<open>InputSection\<close> being the status of \<open>app\<close>). A state setter does not
  change them: it queues an update, and the next render applies the queue.
  \<open>next_app\<close> and \<open>next_form\<close> are the states with the queued updates applied, that
  is the states the next render will have. \<open>awaiting\<close> are the calls of
  \<^verbatim>\<open>handleGenerate\<close> that wait for the service, \<open>reading\<close> the file readers at work,
  each with the \<^verbatim>\<open>selectedStyle\<close> its \<^verbatim>\<open>processFile\<close> has seen.
  \<^verbatim>\<open>handleSubmit\<close> is the only caller of \<^verbatim>\<open>handleGenerate\<close>.
\<close>

record page =
  app :: app_state
  form :: input_state
  next_app :: app_state
  next_form :: input_state
  awaiting :: "generate_call list"
  reading :: "string list"

definition initial_page :: page where
  "initial_page =
    \<lparr>app = initial_app, form = initial_input, next_app = initial_app,
     next_form = initial_input, awaiting = [], reading = []\<rparr>"

text \<open>
  An event is a render, one run of an event handler, or one run of a continuation
  (behind the \<^verbatim>\<open>await\<close>, or \<^verbatim>\<open>reader.onloadend\<close>). Events come in any order; in
  particular a handler may run twice before the next render.
  \<open>FileChosen\<close> is \<^verbatim>\<open>processFile\<close> on an image file; \<open>FileLoaded i img\<close> ends the
  \<open>i\<close>-th reader; \<open>Settle i r uuid now\<close> is the answer \<open>r\<close> of the service to the
  \<open>i\<close>-th waiting call. The five toggles are functional updates of the settings.
\<close>

datatype event =
    Render
  | SetInput string
  | SetStyle string
  | FileChosen
  | FileLoaded nat ImageData
  | ClearImage
  | ToggleComplexity TraceComplexity
  | ToggleColors TraceColors
  | ToggleStrokeWeight TraceStrokeWeight
  | ToggleLineCap TraceLineCap
  | ToggleLineFill TraceLineFill
  | Submit
  | Settle nat service_result string nat

definition step :: "page \<Rightarrow> event \<Rightarrow> page" where
  "step s ev =
    (case ev of
       Render \<Rightarrow> s\<lparr>app := next_app s, form := next_form s\<rparr>
     | SetInput v \<Rightarrow> s\<lparr>next_form := (next_form s)\<lparr>input := v\<rparr>\<rparr>
     | SetStyle v \<Rightarrow> s\<lparr>next_form := (next_form s)\<lparr>selectedStyle := v\<rparr>\<rparr>
     | FileChosen \<Rightarrow> s\<lparr>reading := reading s @ [selectedStyle (form s)]\<rparr>
     | FileLoaded i img \<Rightarrow>
         if i < length (reading s) then
           s\<lparr>next_form := fileLoaded (reading s ! i) img (next_form s),
             reading := take i (reading s) @ drop (Suc i) (reading s)\<rparr>
         else s
     | ClearImage \<Rightarrow> s\<lparr>next_form := clearImage (selectedStyle (form s)) (next_form s)\<rparr>
     | ToggleComplexity v \<Rightarrow>
         s\<lparr>next_form :=
             (next_form s)\<lparr>traceSettings := (traceSettings (next_form s))\<lparr>complexity := v\<rparr>\<rparr>\<rparr>
     | ToggleColors v \<Rightarrow>
         s\<lparr>next_form :=
             (next_form s)\<lparr>traceSettings := (traceSettings (next_form s))\<lparr>colors := v\<rparr>\<rparr>\<rparr>
     | ToggleStrokeWeight v \<Rightarrow>
         s\<lparr>next_form :=
             (next_form s)\<lparr>traceSettings := (traceSettings (next_form s))\<lparr>strokeWeight := v\<rparr>\<rparr>\<rparr>
     | ToggleLineCap v \<Rightarrow>
         s\<lparr>next_form :=
             (next_form s)\<lparr>traceSettings := (traceSettings (next_form s))\<lparr>lineCap := v\<rparr>\<rparr>\<rparr>
     | ToggleLineFill v \<Rightarrow>
         s\<lparr>next_form :=
             (next_form s)\<lparr>traceSettings := (traceSettings (next_form s))\<lparr>lineFill := v\<rparr>\<rparr>\<rparr>
     | Submit \<Rightarrow>
         foldl
           (\<lambda>s' c. s'\<lparr>next_app := handleGenerate_start (next_app s'),
                        awaiting := awaiting s' @ [c]\<rparr>)
           s (handleSubmit (form s) (status (app s)))
     | Settle i r uuid now \<Rightarrow>
         if i < length (awaiting s) then
           s\<lparr>next_app :=
               handleGenerate_finish (awaiting s ! i)
                 (handleGenerate_await (\<lambda>req. r) (awaiting s ! i)) uuid now (next_app s),
             awaiting := take i (awaiting s) @ drop (Suc i) (awaiting s)\<rparr>
         else s)"

definition run :: "event list \<Rightarrow> page" where
  "run evs = foldl step initial_page evs"

subsection \<open>Notions of the specification\<close>

text \<open>
  The start tag and the end tag without regard to case: a character of the text
  agrees with a character of the tag when it is that character, or its capital for the
  letters s, v and g. A span is a text that opens with a start tag and closes with an
  end tag, the two not overlapping; \<open>span_at raw p n\<close> is its occurrence in \<open>raw\<close>
  at offset \<open>p\<close> with length \<open>n\<close>.
\<close>

definition either_case :: "char \<Rightarrow> char \<Rightarrow> bool" where
  "either_case l c = (c = l \<or> (l, c) \<in> set (zip ''svg'' ''SVG''))"

definition is_start_tag :: "string \<Rightarrow> bool" where
  "is_start_tag u = list_all2 either_case ''<svg'' u"

definition is_end_tag :: "string \<Rightarrow> bool" where
  "is_end_tag u = list_all2 either_case ''</svg>'' u"

definition is_svg_span :: "string \<Rightarrow> bool" where
  "is_svg_span m =
    (10 \<le> length m \<and> is_start_tag (take 4 m) \<and> is_end_tag (drop (length m - 6) m))"

definition span_at :: "string \<Rightarrow> nat \<Rightarrow> nat \<Rightarrow> bool" where
  "span_at raw p n = (p + n \<le> length raw \<and> is_svg_span (take n (drop p raw)))"


text \<open>The displayed result is tied to the status: nothing while idle or loading, the
  artifact alone on success, the error alone on failure.\<close>

definition lifecycle_ok :: "app_state \<Rightarrow> bool" where
  "lifecycle_ok a =
    (case status a of
       IDLE \<Rightarrow> currentSvg a = None \<and> error a = None
     | LOADING \<Rightarrow> currentSvg a = None \<and> error a = None
     | SUCCESS \<Rightarrow> currentSvg a \<noteq> None \<and> error a = None
     | ERROR \<Rightarrow> currentSvg a = None \<and> error a \<noteq> None)"

text \<open>\<open>single_flight evs\<close>: all along the events \<open>evs\<close>, from the initial page on, at
  most one call of \<^verbatim>\<open>handleGenerate\<close> waits for the service.\<close>

fun flights_ok :: "page \<Rightarrow> event list \<Rightarrow> bool" where
  "flights_ok s [] = (length (awaiting s) \<le> 1)"
| "flights_ok s (ev # evs) = (length (awaiting s) \<le> 1 \<and> flights_ok (step s ev) evs)"

definition single_flight :: "event list \<Rightarrow> bool" where
  "single_flight evs = flights_ok initial_page evs"

text \<open>\<open>submits_rendered s evs\<close>: every submit among the events \<open>evs\<close>, from the page \<open>s\<close>
  on, comes when the status of the last render is the status the next render will
  have, that is when no update of the status is queued.\<close>

fun submits_rendered :: "page \<Rightarrow> event list \<Rightarrow> bool" where
  "submits_rendered s [] = True"
| "submits_rendered s (ev # evs) =
     ((ev = Submit \<longrightarrow> status (app s) = status (next_app s)) \<and>
      submits_rendered (step s ev) evs)"

text \<open>The invariant that carries the lifecycle property through the events: the
  state of the last render and the state of the next one are both well formed, and a
  call waits for the service exactly while the coming status is \<open>LOADING\<close>.\<close>

definition page_inv :: "page \<Rightarrow> bool" where
  "page_inv s =
    (lifecycle_ok (app s) \<and> lifecycle_ok (next_app s) \<and>
     ((awaiting s \<noteq> []) = (status (next_app s) = LOADING)))"

section \<open>Properties\<close>

subsection \<open>Temperature bands\<close>

text \<open>
  Claim C3. The temperature is a lookup on the style name: 0.15 for Vector Trace,
  Blueprint, Pixel Art and Isometric; 0.3 for Flat, Material, Minimalist and Low Poly;
  0.6 for Hand Drawn, Gradient, Cyberpunk and Pop Art; 0.4 for every other string, in
  particular for Line Art and Paper Cutout.
\<close>

theorem temperature_bands:
  "getTemperatureForStyle ''Vector Trace'' = 0.15 \<and>
   getTemperatureForStyle ''Blueprint'' = 0.15 \<and>
   getTemperatureForStyle ''Pixel Art'' = 0.15 \<and>
   getTemperatureForStyle ''Isometric'' = 0.15 \<and>
   getTemperatureForStyle ''Flat'' = 0.3 \<and>
   getTemperatureForStyle ''Material'' = 0.3 \<and>
   getTemperatureForStyle ''Minimalist'' = 0.3 \<and>
   getTemperatureForStyle ''Low Poly'' = 0.3 \<and>
   getTemperatureForStyle ''Hand Drawn'' = 0.6 \<and>
   getTemperatureForStyle ''Gradient'' = 0.6 \<and>
   getTemperatureForStyle ''Cyberpunk'' = 0.6 \<and>
   getTemperatureForStyle ''Pop Art'' = 0.6 \<and>
   getTemperatureForStyle ''Line Art'' = 0.4 \<and>
   getTemperatureForStyle ''Paper Cutout'' = 0.4 \<and>
   (\<forall>s. s \<notin> set banded_styles \<longrightarrow> getTemperatureForStyle s = 0.4)"
  by (simp add: getTemperatureForStyle_def banded_styles_def)

theorem temperature_bands_witness:
  "''Watercolor'' \<notin> set banded_styles \<and> getTemperatureForStyle ''Watercolor'' = 0.4 \<and>
   getTemperatureForStyle ''Blueprint'' = 0.15"
  using temperature_bands by (simp add: banded_styles_def)

subsection \<open>Style rules\<close>

lemma rule_is_prefix:
  "\<exists>sfx. getStyleInstructions s ts = or_else (map_of instructions s) generic_rule @ sfx"
  unfolding getStyleInstructions_def Let_def by (cases ts) auto

lemma rule_without_settings:
  "getStyleInstructions s None = or_else (map_of instructions s) generic_rule"
  by (simp add: getStyleInstructions_def)

lemma rule_of_plain_style:
  "s \<noteq> ''Vector Trace'' \<Longrightarrow> s \<noteq> ''Line Art'' \<Longrightarrow>
     getStyleInstructions s ts = or_else (map_of instructions s) generic_rule"
  unfolding getStyleInstructions_def Let_def by (cases ts) auto

lemma listed_style_rule:
  "s \<in> set STYLES \<Longrightarrow> s \<notin> {''Minimalist'', ''Gradient'', ''Hand Drawn''} \<Longrightarrow>
     \<exists>r. map_of instructions s = Some r \<and> r \<noteq> [] \<and> r \<noteq> generic_rule"
  unfolding STYLES_def instructions_def generic_rule_def by auto

lemma unlisted_style_rule:
  "map_of instructions ''Minimalist'' = None"
  "map_of instructions ''Gradient'' = None"
  "map_of instructions ''Hand Drawn'' = None"
  by (simp_all add: instructions_def)

lemma unlisted_style_generic:
  assumes "s \<in> {''Minimalist'', ''Gradient'', ''Hand Drawn''}"
  shows "or_else (map_of instructions s) generic_rule = generic_rule \<and> s \<in> set STYLES \<and>
         s \<noteq> ''Vector Trace'' \<and> s \<noteq> ''Line Art''"
  using assms unlisted_style_rule by (auto simp: or_else_def STYLES_def)

lemma rules_distinct: "distinct (map snd instructions)"
  by (simp add: instructions_def)

text \<open>
  Claim C2, as the code has it. The table of style rules has an entry for eleven of the
  fourteen styles. For each of these the output begins with the style's own rule, which
  differs from the generic rule and from the rule of every other style. For
  Minimalist, Gradient and Hand Drawn there is no entry, and the output is the generic
  rule \<^verbatim>\<open>Goal: High quality vector art.\<close>
\<close>

theorem style_rule_lookup:
  "(\<forall>s \<in> set STYLES. s \<notin> {''Minimalist'', ''Gradient'', ''Hand Drawn''} \<longrightarrow>
      (\<exists>r. map_of instructions s = Some r \<and> r \<noteq> generic_rule \<and>
           getStyleInstructions s None = r \<and>
           (\<forall>ts. \<exists>sfx. getStyleInstructions s ts = r @ sfx))) \<and>
   (\<forall>s \<in> {''Minimalist'', ''Gradient'', ''Hand Drawn''}. \<forall>ts.
      s \<in> set STYLES \<and> getStyleInstructions s ts = generic_rule) \<and>
   distinct (map snd instructions) \<and> length STYLES = 14 \<and> distinct STYLES"
proof (intro conjI ballI impI allI)
  fix s assume s: "s \<in> set STYLES" "s \<notin> {''Minimalist'', ''Gradient'', ''Hand Drawn''}"
  from listed_style_rule [OF s] obtain r where
    r: "map_of instructions s = Some r" "r \<noteq> []" "r \<noteq> generic_rule"
    by blast
  then have o: "or_else (map_of instructions s) generic_rule = r"
    by (simp add: or_else_def)
  show "\<exists>r. map_of instructions s = Some r \<and> r \<noteq> generic_rule \<and>
           getStyleInstructions s None = r \<and>
           (\<forall>ts. \<exists>sfx. getStyleInstructions s ts = r @ sfx)"
    using r(1,3) o rule_without_settings [of s] rule_is_prefix [of s] by auto
next
  fix s :: string and ts
  assume s: "s \<in> {''Minimalist'', ''Gradient'', ''Hand Drawn''}"
  from unlisted_style_generic [OF s] show "s \<in> set STYLES" by blast
  from unlisted_style_generic [OF s] rule_of_plain_style [of s ts]
  show "getStyleInstructions s ts = generic_rule" by simp
next
  show "distinct (map snd instructions)" by (rule rules_distinct)
  show "length STYLES = 14" by (simp add: STYLES_def)
  show "distinct STYLES" by (simp add: STYLES_def)
qed

theorem style_rule_lookup_witness:
  \<open>''Pixel Art'' \<in> set STYLES \<and>
   getStyleInstructions ''Pixel Art'' None =
     ''Goal: 8-bit or 16-bit retro style. Use small rect elements to simulate pixels. Keep all "pixels" aligned to a strict grid.'' \<and>
   ''Gradient'' \<in> set STYLES \<and>
   getStyleInstructions ''Gradient'' None = ''Goal: High quality vector art.''\<close>
proof -
  have listed: "''Pixel Art'' \<in> set STYLES" by (simp add: STYLES_def)
  have other: "''Pixel Art'' \<notin> {''Minimalist'', ''Gradient'', ''Hand Drawn''}" by simp
  from bspec [OF conjunct1 [OF style_rule_lookup] listed] other obtain r where
    r: "map_of instructions ''Pixel Art'' = Some r" "getStyleInstructions ''Pixel Art'' None = r"
    by blast
  have \<open>map_of instructions ''Pixel Art'' =
      Some ''Goal: 8-bit or 16-bit retro style. Use small rect elements to simulate pixels. Keep all "pixels" aligned to a strict grid.''\<close>
    by (simp add: instructions_def)
  with r have pixel: \<open>getStyleInstructions ''Pixel Art'' None =
      ''Goal: 8-bit or 16-bit retro style. Use small rect elements to simulate pixels. Keep all "pixels" aligned to a strict grid.''\<close>
    by simp
  have "''Gradient'' \<in> {''Minimalist'', ''Gradient'', ''Hand Drawn''}" by simp
  from bspec [OF conjunct1 [OF conjunct2 [OF style_rule_lookup]] this]
  have "''Gradient'' \<in> set STYLES \<and> getStyleInstructions ''Gradient'' None = generic_rule"
    by blast
  with listed pixel show ?thesis by (simp add: generic_rule_def)
qed

theorem style_rule_missing_counterexample:
  "''Minimalist'' \<in> set STYLES \<and> map_of instructions ''Minimalist'' = None \<and>
   getStyleInstructions ''Minimalist'' None = ''Goal: High quality vector art.'' \<and>
   getStyleInstructions ''Hand Drawn'' None = getStyleInstructions ''Minimalist'' None"
  by (simp add: STYLES_def getStyleInstructions_def instructions_def or_else_def generic_rule_def)

subsection \<open>The settings block\<close>

lemma upper_vector_trace: "toUpperCase ''Vector Trace'' = ''VECTOR TRACE''"
  by (simp add: toUpperCase_def upper_char_def lower_letters_def upper_letters_def)

lemma upper_line_art: "toUpperCase ''Line Art'' = ''LINE ART''"
  by (simp add: toUpperCase_def upper_char_def lower_letters_def upper_letters_def)

lemma cap_directive_eq:
  \<open>''\<newline>- STROKE LINECAP: Ensure any stroked paths use 'stroke-linecap="'' @
     toLowerCase (lineCap_text c) @ ''"'.'' = cap_directive c\<close>
  by (cases c) (simp_all add: toLowerCase_def lower_char_def lower_letters_def upper_letters_def)

lemma rule_vector_trace:
  "or_else (map_of instructions ''Vector Trace'') generic_rule = snd (instructions ! 0)"
  by (simp add: instructions_def or_else_def)

lemma rule_line_art:
  "or_else (map_of instructions ''Line Art'') generic_rule = snd (instructions ! 3)"
  by (simp add: instructions_def or_else_def)

lemma settings_vector_trace:
  "getStyleInstructions ''Vector Trace'' (Some ts) =
     snd (instructions ! 0) @ ''\<newline>VECTOR TRACE SETTINGS:'' @
     complexity_directive (complexity ts) @ colors_directive (colors ts) @
     stroke_directive (strokeWeight ts) @ cap_directive (lineCap ts)"
  unfolding getStyleInstructions_def Let_def rule_vector_trace
  apply (simp only: option.case if_True simp_thms upper_vector_trace append_assoc cap_directive_eq)
  apply (cases "complexity ts"; cases "colors ts"; cases "strokeWeight ts"; simp)
  done

lemma settings_line_art:
  "getStyleInstructions ''Line Art'' (Some ts) =
     snd (instructions ! 3) @ ''\<newline>LINE ART SETTINGS:'' @
     fill_directive (lineFill ts) @
     stroke_directive (strokeWeight ts) @ cap_directive (lineCap ts)"
  unfolding getStyleInstructions_def Let_def rule_line_art
  apply (simp only: option.case if_True simp_thms upper_line_art append_assoc cap_directive_eq)
  apply (cases "lineFill ts"; cases "strokeWeight ts"; simp)
  done

lemma directives_nonempty:
  "complexity_directive a \<noteq> [] \<and> colors_directive b \<noteq> [] \<and> fill_directive c \<noteq> [] \<and>
   stroke_directive d \<noteq> [] \<and> cap_directive e \<noteq> []"
  by (cases a; cases b; cases c; cases d; cases e; simp)

text \<open>
  Claim C5. For Vector Trace and Line Art with settings, the text appended to the rule is
  the header followed by the directives in the order complexity, colors, fill, stroke
  weight, line cap: complexity and colors for Vector Trace only, fill for Line Art only,
  stroke weight and line cap for both. A field that does not apply adds nothing: the
  result does not depend on it. Every directive that is present is a non-empty text.
\<close>

theorem settings_block_order:
  "(\<exists>r. map_of instructions ''Vector Trace'' = Some r \<and>
      getStyleInstructions ''Vector Trace'' (Some ts) =
        r @ ''\<newline>VECTOR TRACE SETTINGS:'' @
        concat [complexity_directive (complexity ts), colors_directive (colors ts),
                stroke_directive (strokeWeight ts), cap_directive (lineCap ts)]) \<and>
   (\<exists>r. map_of instructions ''Line Art'' = Some r \<and>
      getStyleInstructions ''Line Art'' (Some ts) =
        r @ ''\<newline>LINE ART SETTINGS:'' @
        concat [fill_directive (lineFill ts),
                stroke_directive (strokeWeight ts), cap_directive (lineCap ts)]) \<and>
   getStyleInstructions ''Vector Trace'' (Some (ts\<lparr>lineFill := f\<rparr>)) =
     getStyleInstructions ''Vector Trace'' (Some ts) \<and>
   getStyleInstructions ''Line Art'' (Some (ts\<lparr>complexity := x, colors := y\<rparr>)) =
     getStyleInstructions ''Line Art'' (Some ts) \<and>
   complexity_directive (complexity ts) \<noteq> [] \<and> colors_directive (colors ts) \<noteq> [] \<and>
   fill_directive (lineFill ts) \<noteq> [] \<and> stroke_directive (strokeWeight ts) \<noteq> [] \<and>
   cap_directive (lineCap ts) \<noteq> []"
proof -
  have vt: "map_of instructions ''Vector Trace'' = Some (snd (instructions ! 0))"
    by (simp add: instructions_def)
  have la: "map_of instructions ''Line Art'' = Some (snd (instructions ! 3))"
    by (simp add: instructions_def)
  show ?thesis
    using directives_nonempty [of "complexity ts" "colors ts" "lineFill ts" "strokeWeight ts" "lineCap ts"]
    by (simp only: vt la settings_vector_trace settings_line_art concat.simps append_Nil2
          append_assoc simp_thms option.inject ex_simps select_convs update_convs) simp
qed

theorem settings_block_order_witness:
  \<open>getStyleInstructions ''Line Art'' (Some initial_traceSettings) =
     ''Goal: Monoline vector illustration. Use only strokes (stroke-width="2" or similar), no fill (or white fill). Focus on the outline and essential details.'' @
     ''\<newline>LINE ART SETTINGS:'' @
     ''\<newline>- FILL STYLE: No Fill (Stroke Only). Ensure `fill="none"` for all paths. Rely entirely on strokes to define the image.'' @
     ''\<newline>- STROKE WEIGHT: Standard line width (1px - 2px) where strokes are used.'' @
     ''\<newline>- STROKE LINECAP: Ensure any stroked paths use 'stroke-linecap="round"'.''\<close>
  using settings_block_order [of initial_traceSettings]
  by (simp add: initial_traceSettings_def instructions_def)

subsection \<open>Extraction of the markup\<close>

lemma matches_ci_iff:
  "matches_ci pat t \<longleftrightarrow>
     length pat \<le> length t \<and> map upper_char (take (length pat) t) = map upper_char pat"
  by (induction pat t rule: matches_ci.induct) auto

lemma matches_ci_take:
  "length pat \<le> n \<Longrightarrow> matches_ci pat (take n t) = matches_ci pat t"
  by (auto simp: matches_ci_iff min_def)

lemma lazy_Some:
  "lazy_to_end_tag t = Some m \<Longrightarrow>
     \<exists>k. m = take (k + 6) t \<and> k + 6 \<le> length t \<and> matches_ci ''</svg>'' (drop k t) \<and>
         (\<forall>j<k. \<not> matches_ci ''</svg>'' (drop j t))"
proof (induction t arbitrary: m)
  case Nil
  then show ?case by simp
next
  case (Cons c cs)
  show ?case
  proof (cases "matches_ci ''</svg>'' (c # cs)")
    case True
    then have len: "6 \<le> length (c # cs)"
      using matches_ci_iff [of "''</svg>''" "c # cs"] by simp
    from True Cons.prems have "m = take 6 (c # cs)" by simp
    with True len show ?thesis
      by (intro exI [of _ 0]) simp
  next
    case False
    with Cons.prems obtain m' where m': "lazy_to_end_tag cs = Some m'" and m: "m = c # m'"
      by auto
    from Cons.IH [OF m'] obtain k where
      k: "m' = take (k + 6) cs" "k + 6 \<le> length cs" "matches_ci ''</svg>'' (drop k cs)"
         "\<forall>j<k. \<not> matches_ci ''</svg>'' (drop j cs)"
      by blast
    have "\<forall>j<Suc k. \<not> matches_ci ''</svg>'' (drop j (c # cs))"
    proof (intro allI impI)
      fix j assume "j < Suc k"
      then show "\<not> matches_ci ''</svg>'' (drop j (c # cs))"
        using False k(4) by (cases j) auto
    qed
    moreover have "m = take (Suc k + 6) (c # cs)"
      using m k(1) by (simp only: add_Suc take_Suc_Cons)
    moreover have "Suc k + 6 \<le> length (c # cs)" using k(2) by simp
    moreover have "matches_ci ''</svg>'' (drop (Suc k) (c # cs))" using k(3) by simp
    ultimately show ?thesis by blast
  qed
qed

lemma lazy_None:
  "lazy_to_end_tag t = None \<Longrightarrow> \<not> matches_ci ''</svg>'' (drop j t)"
proof (induction t arbitrary: j)
  case Nil
  then show ?case by simp
next
  case (Cons c cs)
  then show ?case
    by (cases j) (auto split: if_splits)
qed

lemma match_here_Some:
  assumes "match_here t = Some m"
  shows "\<exists>k. m = take (k + 10) t \<and> k + 10 \<le> length t \<and> matches_ci ''<svg'' t \<and>
             matches_ci ''</svg>'' (drop (k + 4) t) \<and>
             (\<forall>j<k. \<not> matches_ci ''</svg>'' (drop (j + 4) t))"
proof -
  from assms have op: "matches_ci ''<svg'' t"
    by (auto simp: match_here_def split: if_splits)
  then have len: "4 \<le> length t"
    using matches_ci_iff [of "''<svg''" t] by simp
  from assms op obtain m' where m': "lazy_to_end_tag (drop 4 t) = Some m'" and m: "m = take 4 t @ m'"
    by (auto simp: match_here_def)
  from lazy_Some [OF m'] obtain k where
    k: "m' = take (k + 6) (drop 4 t)" "k + 6 \<le> length (drop 4 t)"
       "matches_ci ''</svg>'' (drop k (drop 4 t))"
       "\<forall>j<k. \<not> matches_ci ''</svg>'' (drop j (drop 4 t))"
    by blast
  have "m = take (k + 10) t"
    using m k(1) len by (simp add: take_add [symmetric] add.commute)
  moreover have "k + 10 \<le> length t" using k(2) len by simp
  ultimately show ?thesis
    using op k(3,4) by (intro exI [of _ k]) (simp add: add.commute)
qed

lemma match_here_None:
  assumes "match_here t = None" "matches_ci ''<svg'' t"
  shows "\<not> matches_ci ''</svg>'' (drop (j + 4) t)"
proof -
  from assms have "lazy_to_end_tag (drop 4 t) = None"
    by (auto simp: match_here_def)
  from lazy_None [OF this, of j] show ?thesis by (simp add: add.commute)
qed

lemma svgMatch_Some:
  "svgMatch raw = Some m \<Longrightarrow>
     \<exists>p. p \<le> length raw \<and> match_here (drop p raw) = Some m \<and>
         (\<forall>q<p. match_here (drop q raw) = None)"
proof (induction raw)
  case Nil
  then show ?case by simp
next
  case (Cons c cs)
  show ?case
  proof (cases "match_here (c # cs)")
    case (Some a)
    with Cons.prems show ?thesis by (intro exI [of _ 0]) simp
  next
    case None
    with Cons.prems have "svgMatch cs = Some m" by simp
    from Cons.IH [OF this] obtain p where
      p: "p \<le> length cs" "match_here (drop p cs) = Some m" "\<forall>q<p. match_here (drop q cs) = None"
      by blast
    have "\<forall>q<Suc p. match_here (drop q (c # cs)) = None"
    proof (intro allI impI)
      fix q assume "q < Suc p"
      then show "match_here (drop q (c # cs)) = None"
        using None p(3) by (cases q) auto
    qed
    with p show ?thesis by (intro exI [of _ "Suc p"]) simp
  qed
qed

lemma svgMatch_None:
  "svgMatch raw = None \<Longrightarrow> match_here (drop q raw) = None"
proof (induction raw arbitrary: q)
  case Nil
  then show ?case by (simp add: match_here_def)
next
  case (Cons c cs)
  then show ?case by (cases q) (auto split: option.splits)
qed

lemma canon_lt: "upper_char (CHR ''<'') = upper_char c \<longleftrightarrow> c = CHR ''<''"
  by (auto simp: upper_char_def lower_letters_def upper_letters_def split: if_splits)

lemma canon_slash: "upper_char (CHR ''/'') = upper_char c \<longleftrightarrow> c = CHR ''/''"
  by (auto simp: upper_char_def lower_letters_def upper_letters_def split: if_splits)

lemma canon_gt: "upper_char (CHR ''>'') = upper_char c \<longleftrightarrow> c = CHR ''>''"
  by (auto simp: upper_char_def lower_letters_def upper_letters_def split: if_splits)

lemma canon_s: "upper_char (CHR ''s'') = upper_char c \<longleftrightarrow> c = CHR ''s'' \<or> c = CHR ''S''"
  by (auto simp: upper_char_def lower_letters_def upper_letters_def split: if_splits)

lemma canon_v: "upper_char (CHR ''v'') = upper_char c \<longleftrightarrow> c = CHR ''v'' \<or> c = CHR ''V''"
  by (auto simp: upper_char_def lower_letters_def upper_letters_def split: if_splits)

lemma canon_g: "upper_char (CHR ''g'') = upper_char c \<longleftrightarrow> c = CHR ''g'' \<or> c = CHR ''G''"
  by (auto simp: upper_char_def lower_letters_def upper_letters_def split: if_splits)


lemma canon_either_case:
  "p \<in> set ''</svg>'' \<Longrightarrow> upper_char p = upper_char c \<longleftrightarrow> either_case p c"
  by (auto simp: either_case_def canon_lt canon_slash canon_gt canon_s canon_v canon_g)

lemma matches_ci_all2:
  "(\<And>p c. p \<in> set pat \<Longrightarrow> upper_char p = upper_char c \<longleftrightarrow> either_case p c) \<Longrightarrow>
     matches_ci pat t \<longleftrightarrow> list_all2 either_case pat (take (length pat) t)"
  by (induction pat t rule: matches_ci.induct) auto

lemma start_tag_iff: "matches_ci ''<svg'' t \<longleftrightarrow> is_start_tag (take 4 t)"
proof -
  have len: "length ''<svg'' = 4" by simp
  have "matches_ci ''<svg'' t \<longleftrightarrow> list_all2 either_case ''<svg'' (take (length ''<svg'') t)"
  proof (rule matches_ci_all2)
    fix p c assume "p \<in> set ''<svg''"
    then have "p \<in> set ''</svg>''" by auto
    then show "upper_char p = upper_char c \<longleftrightarrow> either_case p c"
      by (rule canon_either_case)
  qed
  then show ?thesis unfolding is_start_tag_def len .
qed

lemma end_tag_iff: "matches_ci ''</svg>'' t \<longleftrightarrow> is_end_tag (take 6 t)"
proof -
  have len: "length ''</svg>'' = 6" by simp
  have "matches_ci ''</svg>'' t \<longleftrightarrow>
      list_all2 either_case ''</svg>'' (take (length ''</svg>'') t)"
    by (rule matches_ci_all2) (rule canon_either_case)
  then show ?thesis unfolding is_end_tag_def len .
qed

lemma span_at_iff:
  "span_at raw p n \<longleftrightarrow>
     10 \<le> n \<and> p + n \<le> length raw \<and> matches_ci ''<svg'' (drop p raw) \<and>
     matches_ci ''</svg>'' (drop (p + n - 6) raw)"
proof (cases "10 \<le> n \<and> p + n \<le> length raw")
  case True
  let ?m = "take n (drop p raw)"
  have len: "length ?m = n" using True by auto
  have d: "drop (n - 6) ?m = take 6 (drop (p + n - 6) raw)"
    using True by (simp add: drop_take add.commute)
  have a: "take 4 ?m = take 4 (drop p raw)"
    using True by (simp add: min_def)
  have b: "is_end_tag (drop (n - 6) ?m) = matches_ci ''</svg>'' (drop (p + n - 6) raw)"
    unfolding d by (simp add: end_tag_iff)
  show ?thesis
    by (simp only: span_at_def is_svg_span_def len a b start_tag_iff [symmetric])
      (use True in simp)
next
  case False
  then show ?thesis by (auto simp: span_at_def is_svg_span_def)
qed

lemma span_match_here:
  assumes "span_at raw p n"
  shows "match_here (drop p raw) \<noteq> None"
proof
  assume none: "match_here (drop p raw) = None"
  from assms have s: "10 \<le> n" "matches_ci ''<svg'' (drop p raw)"
      "matches_ci ''</svg>'' (drop (p + n - 6) raw)"
    by (simp_all add: span_at_iff)
  from match_here_None [OF none s(2), of "n - 10"] s(1,3) show False
    by (simp add: add.commute)
qed

lemma svgMatch_first:
  assumes "span_at raw p n"
  shows "\<exists>p0 n0. span_at raw p0 n0 \<and> svgMatch raw = Some (take n0 (drop p0 raw)) \<and>
           (\<forall>p' n'. span_at raw p' n' \<longrightarrow> p0 < p' \<or> (p0 = p' \<and> n0 \<le> n'))"
proof -
  have "svgMatch raw \<noteq> None"
  proof
    assume "svgMatch raw = None"
    from svgMatch_None [OF this, of p] span_match_here [OF assms] show False by simp
  qed
  then obtain m where m: "svgMatch raw = Some m" by auto
  from svgMatch_Some [OF m] obtain p0 where
    p0: "p0 \<le> length raw" "match_here (drop p0 raw) = Some m"
        "\<forall>q<p0. match_here (drop q raw) = None"
    by blast
  from match_here_Some [OF p0(2)] obtain k where
    k: "m = take (k + 10) (drop p0 raw)" "k + 10 \<le> length (drop p0 raw)"
       "matches_ci ''<svg'' (drop p0 raw)"
       "matches_ci ''</svg>'' (drop (k + 4) (drop p0 raw))"
       "\<forall>j<k. \<not> matches_ci ''</svg>'' (drop (j + 4) (drop p0 raw))"
    by blast
  have "p0 + (k + 10) - 6 = k + 4 + p0" by simp
  moreover have "p0 + (k + 10) \<le> length raw" using k(2) p0(1) by simp
  ultimately have span0: "span_at raw p0 (k + 10)"
    using k(3,4) by (simp only: span_at_iff drop_drop) simp
  have least: "p0 < p' \<or> (p0 = p' \<and> k + 10 \<le> n')" if sp: "span_at raw p' n'" for p' n'
  proof -
    have "\<not> p' < p0" using span_match_here [OF sp] p0(3) by auto
    moreover have "k + 10 \<le> n'" if "p' = p0"
    proof (rule ccontr)
      assume "\<not> k + 10 \<le> n'"
      moreover from sp have n': "10 \<le> n'" "matches_ci ''</svg>'' (drop (p' + n' - 6) raw)"
        by (simp_all add: span_at_iff)
      ultimately have "n' - 10 < k" by simp
      with k(5) have "\<not> matches_ci ''</svg>'' (drop (n' - 10 + 4) (drop p0 raw))" by blast
      moreover have "n' - 10 + 4 + p0 = p' + n' - 6" using n'(1) that by simp
      ultimately show False using n'(2) by simp
    qed
    ultimately show ?thesis by auto
  qed
  show ?thesis
    using span0 m k(1) least by (intro exI [of _ p0] exI [of _ "k + 10"]) blast
qed

lemma svgMatch_None_iff: "svgMatch raw = None \<longleftrightarrow> (\<forall>p n. \<not> span_at raw p n)"
proof
  assume none: "svgMatch raw = None"
  show "\<forall>p n. \<not> span_at raw p n"
  proof (intro allI notI)
    fix p n assume "span_at raw p n"
    from svgMatch_first [OF this] none show False by auto
  qed
next
  assume no: "\<forall>p n. \<not> span_at raw p n"
  show "svgMatch raw = None"
  proof (rule ccontr)
    assume "svgMatch raw \<noteq> None"
    then obtain m where m: "svgMatch raw = Some m" by auto
    from svgMatch_Some [OF m] obtain p where
      p: "p \<le> length raw" "match_here (drop p raw) = Some m"
      by blast
    from match_here_Some [OF p(2)] obtain k where
      k: "k + 10 \<le> length (drop p raw)" "matches_ci ''<svg'' (drop p raw)"
         "matches_ci ''</svg>'' (drop (k + 4) (drop p raw))"
      by blast
    have "p + (k + 10) - 6 = k + 4 + p" by simp
    moreover have "p + (k + 10) \<le> length raw" using k(1) p(1) by simp
    ultimately have "span_at raw p (k + 10)"
      using k(2,3) by (simp only: span_at_iff drop_drop) simp
    with no show False by blast
  qed
qed

lemma span_nonempty: "span_at raw p n \<Longrightarrow> take n (drop p raw) \<noteq> []"
  by (auto simp: span_at_def is_svg_span_def)

lemma interpret_of_match:
  "svgMatch raw = Some m \<Longrightarrow> m \<noteq> [] \<Longrightarrow> interpret_text raw = Inr m"
  by (simp add: interpret_text_def)

lemma svgMatch_example:
  \<open>svgMatch ''noise <svg viewBox="0 0 10 10"><rect/></svg> trailing'' =
     Some ''<svg viewBox="0 0 10 10"><rect/></svg>''\<close>
  by (simp add: match_here_def upper_char_def lower_letters_def upper_letters_def)

lemma svgMatch_mixed_case:
  "svgMatch ''a<SVG><r/></SvG>b</svg>'' = Some ''<SVG><r/></SvG>''"
  by (simp add: match_here_def upper_char_def lower_letters_def upper_letters_def)

text \<open>
  Claim C1. When the reply contains a text that opens with the start tag and closes with
  the end tag, in any mixture of upper and lower case, the extraction returns such a
  text verbatim, and it is the first one: no other starts further left, and none that
  starts at the same place is shorter. On the reply
  \<^verbatim>\<open>noise <svg viewBox="0 0 10 10"><rect/></svg> trailing\<close> the result is
  \<^verbatim>\<open><svg viewBox="0 0 10 10"><rect/></svg>\<close>; on \<^verbatim>\<open>a<SVG><r/></SvG>b</svg>\<close> it is
  \<^verbatim>\<open><SVG><r/></SvG>\<close>.
\<close>

theorem interpret_first_span:
  \<open>(\<forall>raw p n. span_at raw p n \<longrightarrow>
      (\<exists>p0 n0. span_at raw p0 n0 \<and> interpret_text raw = Inr (take n0 (drop p0 raw)) \<and>
         (\<forall>p' n'. span_at raw p' n' \<longrightarrow> p0 < p' \<or> (p0 = p' \<and> n0 \<le> n')))) \<and>
   interpret_text ''noise <svg viewBox="0 0 10 10"><rect/></svg> trailing'' =
     Inr ''<svg viewBox="0 0 10 10"><rect/></svg>'' \<and>
   interpret_text ''a<SVG><r/></SvG>b</svg>'' = Inr ''<SVG><r/></SvG>''\<close>
proof (intro conjI allI impI)
  fix raw p n assume "span_at raw p n"
  from svgMatch_first [OF this] obtain p0 n0 where
    f: "span_at raw p0 n0" "svgMatch raw = Some (take n0 (drop p0 raw))"
       "\<forall>p' n'. span_at raw p' n' \<longrightarrow> p0 < p' \<or> (p0 = p' \<and> n0 \<le> n')"
    by blast
  from interpret_of_match [OF f(2) span_nonempty [OF f(1)]]
  have "interpret_text raw = Inr (take n0 (drop p0 raw))" .
  with f(1,3) show "\<exists>p0 n0. span_at raw p0 n0 \<and> interpret_text raw = Inr (take n0 (drop p0 raw)) \<and>
         (\<forall>p' n'. span_at raw p' n' \<longrightarrow> p0 < p' \<or> (p0 = p' \<and> n0 \<le> n'))"
    by blast
next
  show \<open>interpret_text ''noise <svg viewBox="0 0 10 10"><rect/></svg> trailing'' =
     Inr ''<svg viewBox="0 0 10 10"><rect/></svg>''\<close>
    by (rule interpret_of_match [OF svgMatch_example]) simp
next
  show "interpret_text ''a<SVG><r/></SvG>b</svg>'' = Inr ''<SVG><r/></SvG>''"
    by (rule interpret_of_match [OF svgMatch_mixed_case]) simp
qed

theorem interpret_first_span_witness:
  \<open>span_at ''noise <svg viewBox="0 0 10 10"><rect/></svg> trailing'' 6 38 \<and>
   take 38 (drop 6 ''noise <svg viewBox="0 0 10 10"><rect/></svg> trailing'') =
     ''<svg viewBox="0 0 10 10"><rect/></svg>'' \<and>
   interpret_text ''noise <svg viewBox="0 0 10 10"><rect/></svg> trailing'' =
     Inr ''<svg viewBox="0 0 10 10"><rect/></svg>'' \<and>
   span_at ''a<SVG><r/></SvG>b</svg>'' 1 15 \<and>
   take 15 (drop 1 ''a<SVG><r/></SvG>b</svg>'') = ''<SVG><r/></SvG>'' \<and>
   interpret_text ''a<SVG><r/></SvG>b</svg>'' = Inr ''<SVG><r/></SvG>''\<close>
proof -
  have \<open>span_at ''noise <svg viewBox="0 0 10 10"><rect/></svg> trailing'' 6 38\<close>
    by (simp add: span_at_def is_svg_span_def is_start_tag_def is_end_tag_def either_case_def)
  moreover have "span_at ''a<SVG><r/></SvG>b</svg>'' 1 15"
    by (simp add: span_at_def is_svg_span_def is_start_tag_def is_end_tag_def either_case_def)
  ultimately show ?thesis
    using conjunct1 [OF conjunct2 [OF interpret_first_span]]
      conjunct2 [OF conjunct2 [OF interpret_first_span]]
    by simp
qed

subsection \<open>Errors of the service call\<close>

lemma no_span_interpret:
  "\<forall>q n. \<not> span_at raw q n \<Longrightarrow> interpret_text raw = from_cleaned raw"
  by (simp add: interpret_text_def svgMatch_None_iff [symmetric])

lemma noSvgError_kept: "on_catch noSvgError = noSvgError"
  by (simp add: on_catch_def noSvgError_def)

lemma noSvgError_classified:
  "err_message (classify noSvgError) = Some ''Connection Error''"
  by (simp add: classify_def noSvgError_def Let_def or_else_def toLowerCase_def lower_char_def
        lower_letters_def upper_letters_def)

text \<open>
  Claim C4. When the reply holds no text from a start tag to an end tag, and the reply
  with the code fences removed and trimmed does not contain both \<^verbatim>\<open><svg\<close> and
  \<^verbatim>\<open></svg>\<close>, the operation throws the format error: the message
  \<^verbatim>\<open>Generation Format Error\<close>, a fixed detail text and a fixed, non-empty suggestion. The
  handler of the service call rethrows it as it is (classifying it would have made a
  connection error of it), and \<open>handleGenerate\<close> shows these three texts.
\<close>

theorem no_markup_format_error:
  assumes "ai (build_request p img style ts) = Resolves t"
    and "or_else t [] = raw"
    and "\<forall>q n. \<not> span_at raw q n"
    and "\<not> (includes_str (cleaned raw) ''<svg'' \<and> includes_str (cleaned raw) ''</svg>'')"
  shows "generateSvgFromPrompt ai p img style ts =
      Inl (JsError (Some ''Generation Format Error'')
             (Some ''The model generated a response but no valid SVG code was found.'')
             (Some ''Try simplifying your prompt or selecting the 'Flat' style which is more consistent.'')
             None) \<and>
    interpret_text raw = Inl noSvgError \<and> on_catch noSvgError = noSvgError \<and>
    classify noSvgError \<noteq> noSvgError \<and> truthy (err_suggestion noSvgError) \<and>
    error (handleGenerate_finish c (generateSvgFromPrompt ai p img style ts) uuid now a) =
      Some \<lparr>message = ''Generation Format Error'',
            details = Some ''The model generated a response but no valid SVG code was found.'',
            suggestion = Some ''Try simplifying your prompt or selecting the 'Flat' style which is more consistent.''\<rparr>"
proof -
  from assms(3,4) have i: "interpret_text raw = Inl noSvgError"
    by (simp add: no_span_interpret from_cleaned_def)
  with assms(1,2) have g: "generateSvgFromPrompt ai p img style ts = Inl noSvgError"
    by (simp add: generateSvgFromPrompt_def noSvgError_kept)
  have "classify noSvgError \<noteq> noSvgError"
    using noSvgError_classified by (auto simp: noSvgError_def)
  with i g show ?thesis
    by (simp add: noSvgError_kept) (simp add: noSvgError_def handleGenerate_finish_def or_else_def)
qed

theorem no_markup_format_error_witness:
  "svgMatch ''no markup here'' = None \<and> cleaned ''no markup here'' = ''no markup here'' \<and>
   generateSvgFromPrompt (\<lambda>req. Resolves (Some ''no markup here'')) ''a cat'' None ''Flat'' None =
      Inl (JsError (Some ''Generation Format Error'')
             (Some ''The model generated a response but no valid SVG code was found.'')
             (Some ''Try simplifying your prompt or selecting the 'Flat' style which is more consistent.'')
             None)"
proof -
  let ?raw = "''no markup here''"
  have m: "svgMatch ?raw = None"
    by (simp add: match_here_def upper_char_def lower_letters_def upper_letters_def)
  have no: "\<forall>q n. \<not> span_at ?raw q n" by (rule iffD1 [OF svgMatch_None_iff m])
  have cl: "cleaned ?raw = ?raw" by (simp add: cleaned_def trim_def is_space_def)
  have inc: "\<not> (includes_str (cleaned ?raw) ''<svg'' \<and> includes_str (cleaned ?raw) ''</svg>'')"
    unfolding cl by simp
  have o: "or_else (Some ?raw) [] = ?raw" by (simp add: or_else_def)
  from no_markup_format_error [of "\<lambda>req. Resolves (Some ?raw)" "''a cat''" None "''Flat''" None
      "Some ?raw" ?raw, OF refl o no inc] m cl
  show ?thesis by simp
qed

lemma starts_with_append: "starts_with (a @ b) t \<Longrightarrow> starts_with a t"
  by (induction a t rule: starts_with.induct) auto

lemma includes_append: "includes_str t (a @ b) \<Longrightarrow> includes_str t a"
  by (induction t) (auto dest: starts_with_append)

lemma includes_429: "includes_str t ''429 quota exceeded'' \<Longrightarrow> includes_str t ''429''"
  using includes_append [of t "''429''" "'' quota exceeded''"] by simp

text \<open>
  Claim C9, as the code has it. The rules are tried in order on the lower-cased message
  and the first that applies wins; the rule for \<^verbatim>\<open>safety\<close> and \<^verbatim>\<open>blocked\<close> comes first.
  So an error without suggestion whose lower-cased message contains
  \<^verbatim>\<open>429 quota exceeded\<close>, and neither \<^verbatim>\<open>safety\<close> nor \<^verbatim>\<open>blocked\<close>, is thrown as the
  overloaded error: the message \<^verbatim>\<open>System Overloaded\<close> with its fixed detail and suggestion.
\<close>

theorem overloaded_classification:
  assumes "ai (build_request p img style ts) = Throws e"
    and "\<not> truthy (err_suggestion e)"
    and "includes_str (toLowerCase (or_else (err_message e) [])) ''429 quota exceeded''"
    and "\<not> includes_str (toLowerCase (or_else (err_message e) [])) ''safety''"
    and "\<not> includes_str (toLowerCase (or_else (err_message e) [])) ''blocked''"
  shows "generateSvgFromPrompt ai p img style ts =
      Inl (JsError (Some ''System Overloaded'')
             (Some ''API quota exceeded or system is currently busy.'')
             (Some ''Please wait a minute before trying again.'')
             (Some e))"
proof -
  from assms(3) have "includes_str (toLowerCase (or_else (err_message e) [])) ''429''"
    by (rule includes_429)
  with assms(4,5) have "classify e =
      JsError (Some ''System Overloaded'')
        (Some ''API quota exceeded or system is currently busy.'')
        (Some ''Please wait a minute before trying again.'')
        (Some e)"
    by (simp add: classify_def Let_def)
  with assms(1,2) show ?thesis
    by (simp add: generateSvgFromPrompt_def on_catch_def)
qed

lemma lower_quota_message:
  "toLowerCase ''429 Quota Exceeded'' = ''429 quota exceeded''"
  by (simp add: toLowerCase_def lower_char_def lower_letters_def upper_letters_def)

theorem overloaded_classification_witness:
  "includes_str (toLowerCase ''429 Quota Exceeded'') ''429 quota exceeded'' \<and>
   generateSvgFromPrompt (\<lambda>req. Throws (JsError (Some ''429 Quota Exceeded'') None None None))
       ''a cat'' None ''Flat'' None =
      Inl (JsError (Some ''System Overloaded'')
             (Some ''API quota exceeded or system is currently busy.'')
             (Some ''Please wait a minute before trying again.'')
             (Some (JsError (Some ''429 Quota Exceeded'') None None None)))"
proof -
  let ?e = "JsError (Some ''429 Quota Exceeded'') None None None"
  have l: "toLowerCase (or_else (err_message ?e) []) = ''429 quota exceeded''"
    by (simp add: or_else_def lower_quota_message)
  have a: "includes_str (toLowerCase (or_else (err_message ?e) [])) ''429 quota exceeded''"
    unfolding l by simp
  have b: "\<not> includes_str (toLowerCase (or_else (err_message ?e) [])) ''safety''"
    unfolding l by simp
  have c: "\<not> includes_str (toLowerCase (or_else (err_message ?e) [])) ''blocked''"
    unfolding l by simp
  have s: "\<not> truthy (err_suggestion ?e)" by simp
  from overloaded_classification [of "\<lambda>req. Throws ?e" "''a cat''" None "''Flat''" None ?e,
      OF refl s a b c] a
  show ?thesis by (simp add: or_else_def)
qed

lemma lower_blocked_message:
  "toLowerCase ''429 quota exceeded: request blocked'' = ''429 quota exceeded: request blocked''"
  by (simp add: toLowerCase_def lower_char_def lower_letters_def upper_letters_def)

theorem overloaded_counterexample:
  "err_suggestion (JsError (Some ''429 quota exceeded: request blocked'') None None None) = None \<and>
   includes_str (toLowerCase ''429 quota exceeded: request blocked'') ''429 quota exceeded'' \<and>
   generateSvgFromPrompt
       (\<lambda>req. Throws (JsError (Some ''429 quota exceeded: request blocked'') None None None))
       ''a cat'' None ''Flat'' None =
      Inl (JsError (Some ''Content Flagged'')
             (Some ''The request triggered the AI's safety filters.'')
             (Some ''Try rephrasing your prompt to be more abstract or removing sensitive keywords.'')
             (Some (JsError (Some ''429 quota exceeded: request blocked'') None None None)))"
  by (simp add: generateSvgFromPrompt_def on_catch_def classify_def Let_def or_else_def
        lower_blocked_message)

subsection \<open>The user instruction\<close>

text \<open>
  Claim C6, as the code has it. Every request uses one of the two templates: the
  image template when an image part is given, the text-only template otherwise. The
  prompt is put between the fixed texts of the template as it is, whatever
  characters it contains; the text-only template does so for the empty prompt as well.
  The image template puts \<^verbatim>\<open>Convert to SVG\<close> in the place of an empty prompt.
\<close>

theorem user_prompt_templates:
  \<open>userPrompt p None style =
     ''\<newline>      Create an SVG artwork of: "'' @ p @ ''".\<newline>      Style: '' @ style @
     ''\<newline>      '' \<and>
   (p \<noteq> [] \<longrightarrow>
     userPrompt p (Some part) style =
       ''\<newline>      Reference Image provided. \<newline>      Task: Convert this image into an SVG following the "'' @
       style @ ''" style.\<newline>      \<newline>      Specific details from user: "'' @ p @
       ''"\<newline>      \<newline>      '' @
       (if style = ''Vector Trace''
        then ''CRITICAL: Trace the image according to the TRACE CONFIGURATION in system instructions.''
        else ''Interpret the image content but strictly apply the requested artistic style.'') @
       ''\<newline>      '') \<and>
   userPrompt [] (Some part) style =
     ''\<newline>      Reference Image provided. \<newline>      Task: Convert this image into an SVG following the "'' @
     style @ ''" style.\<newline>      \<newline>      Specific details from user: "'' @ ''Convert to SVG'' @
     ''"\<newline>      \<newline>      '' @
     (if style = ''Vector Trace''
      then ''CRITICAL: Trace the image according to the TRACE CONFIGURATION in system instructions.''
      else ''Interpret the image content but strictly apply the requested artistic style.'') @
     ''\<newline>      '' \<and>
   req_contents (build_request p None style ts) = TextOnly (userPrompt p None style) \<and>
   req_contents (build_request p (Some part) style ts) =
     Parts part (userPrompt p (Some part) style)\<close>
  by (simp add: userPrompt_def build_request_def or_else_def Let_def)

theorem user_prompt_templates_witness:
  \<open>userPrompt ''a "cat" ${x} `'' None ''Flat'' =
     ''\<newline>      Create an SVG artwork of: "a "cat" ${x} `".\<newline>      Style: Flat\<newline>      '' \<and>
   userPrompt [] None ''Flat'' =
     ''\<newline>      Create an SVG artwork of: "".\<newline>      Style: Flat\<newline>      '' \<and>
   userPrompt ''"}'' (Some \<lparr>inline_data = ''QUJD'', inline_mimeType = ''image/png''\<rparr>) ''Line Art'' =
     ''\<newline>      Reference Image provided. \<newline>      Task: Convert this image into an SVG following the "Line Art" style.\<newline>      \<newline>      Specific details from user: ""}"\<newline>      \<newline>      Interpret the image content but strictly apply the requested artistic style.\<newline>      ''\<close>
  using user_prompt_templates [of "''a \"cat\" ${x} `''" "''Flat''"]
    user_prompt_templates [of "[]" "''Flat''"]
    user_prompt_templates [of "''\"}''" "''Line Art''"
      "\<lparr>inline_data = ''QUJD'', inline_mimeType = ''image/png''\<rparr>"]
  by simp

theorem empty_prompt_image_counterexample:
  \<open>userPrompt [] (Some \<lparr>inline_data = ''QUJD'', inline_mimeType = ''image/png''\<rparr>) ''Flat'' =
     ''\<newline>      Reference Image provided. \<newline>      Task: Convert this image into an SVG following the "Flat" style.\<newline>      \<newline>      Specific details from user: "Convert to SVG"\<newline>      \<newline>      Interpret the image content but strictly apply the requested artistic style.\<newline>      '' \<and>
   userPrompt [] (Some \<lparr>inline_data = ''QUJD'', inline_mimeType = ''image/png''\<rparr>) ''Flat'' \<noteq>
     ''\<newline>      Reference Image provided. \<newline>      Task: Convert this image into an SVG following the "Flat" style.\<newline>      \<newline>      Specific details from user: ""\<newline>      \<newline>      Interpret the image content but strictly apply the requested artistic style.\<newline>      ''\<close>
  by (simp add: userPrompt_def or_else_def)

subsection \<open>The form and the lifecycle\<close>

lemma handleSubmit_cases:
  "handleSubmit f st = [] \<or> (\<exists>c. handleSubmit f st = [c]) \<and> st \<noteq> LOADING"
  by (auto simp: handleSubmit_def)

lemma lifecycle_start: "lifecycle_ok (handleGenerate_start a)"
  by (simp add: lifecycle_ok_def handleGenerate_start_def)

lemma status_start: "status (handleGenerate_start a) = LOADING"
  by (simp add: handleGenerate_start_def)

lemma finish_from_loading:
  "status a = LOADING \<Longrightarrow> lifecycle_ok a \<Longrightarrow>
     lifecycle_ok (handleGenerate_finish c outcome uuid now a) \<and>
     status (handleGenerate_finish c outcome uuid now a) \<noteq> LOADING"
  by (cases outcome) (simp_all add: lifecycle_ok_def handleGenerate_finish_def)

lemma page_inv_initial: "page_inv initial_page"
  by (simp add: page_inv_def initial_page_def initial_app_def lifecycle_ok_def)

lemma page_inv_step:
  assumes "page_inv s" and "length (awaiting (step s ev)) \<le> 1"
    and "length (awaiting s) \<le> 1"
  shows "page_inv (step s ev)"
proof (cases ev)
  case Submit
  from handleSubmit_cases [of "form s" "status (app s)"] show ?thesis
  proof (elim disjE conjE exE)
    assume "handleSubmit (form s) (status (app s)) = []"
    with assms Submit show ?thesis by (simp add: step_def)
  next
    fix c assume c: "handleSubmit (form s) (status (app s)) = [c]"
    with assms(2) Submit have "awaiting s = []" by (simp add: step_def)
    with assms(1) c Submit show ?thesis
      by (simp add: step_def page_inv_def lifecycle_start status_start)
  qed
next
  case (Settle i r uuid now)
  show ?thesis
  proof (cases "i < length (awaiting s)")
    case True
    have after: "step s ev =
        s\<lparr>next_app := handleGenerate_finish (awaiting s ! i)
                 (handleGenerate_await (\<lambda>req. r) (awaiting s ! i)) uuid now (next_app s),
          awaiting := take i (awaiting s) @ drop (Suc i) (awaiting s)\<rparr>"
      using True Settle by (simp add: step_def)
    from True assms(3) have rest: "take i (awaiting s) @ drop (Suc i) (awaiting s) = []"
      by simp
    from True have nonempty: "awaiting s \<noteq> []" by auto
    from nonempty assms(1) have st: "status (next_app s) = LOADING"
      and ok: "lifecycle_ok (next_app s)" and shown: "lifecycle_ok (app s)"
      by (simp_all add: page_inv_def)
    from finish_from_loading [OF st ok] shown show ?thesis
      by (simp add: after rest page_inv_def)
  next
    case False
    with assms Settle show ?thesis by (simp add: step_def)
  qed
next
  case (FileLoaded i img)
  with assms(1) show ?thesis by (simp add: step_def page_inv_def)
qed (use assms(1) in \<open>simp_all add: step_def page_inv_def\<close>)

lemma flights_ok_now: "flights_ok s evs \<Longrightarrow> length (awaiting s) \<le> 1"
  by (cases evs) simp_all

lemma page_inv_flights:
  "page_inv s \<Longrightarrow> flights_ok s evs \<Longrightarrow> page_inv (foldl step s evs)"
proof (induction evs arbitrary: s)
  case Nil
  then show ?case by simp
next
  case (Cons ev evs)
  from Cons.prems(2) have next_ok: "flights_ok (step s ev) evs" by simp
  from Cons.prems(2) have "length (awaiting s) \<le> 1" by simp
  from page_inv_step [OF Cons.prems(1) flights_ok_now [OF next_ok] this]
  have "page_inv (step s ev)" .
  from Cons.IH [OF this next_ok] show ?case by simp
qed

lemma page_inv_single_flight: "single_flight evs \<Longrightarrow> page_inv (run evs)"
  unfolding single_flight_def run_def by (rule page_inv_flights [OF page_inv_initial])

lemma rendered_submit_one_flight:
  assumes "page_inv s" and "length (awaiting s) \<le> 1"
    and "ev = Submit \<longrightarrow> status (app s) = status (next_app s)"
  shows "length (awaiting (step s ev)) \<le> 1"
proof (cases ev)
  case Submit
  show ?thesis
  proof (cases "awaiting s = []")
    case True
    with Submit handleSubmit_cases [of "form s" "status (app s)"] show ?thesis
      by (auto simp: step_def)
  next
    case False
    with assms(1,3) Submit have "status (app s) = LOADING" by (simp add: page_inv_def)
    then have "handleSubmit (form s) (status (app s)) = []" by (simp add: handleSubmit_def)
    with assms(2) Submit show ?thesis by (simp add: step_def)
  qed
next
  case (Settle i r uuid now)
  with assms(2) show ?thesis by (simp add: step_def)
next
  case (FileLoaded i img)
  with assms(2) show ?thesis by (simp add: step_def)
qed (use assms(2) in \<open>simp_all add: step_def\<close>)

lemma rendered_flights:
  "page_inv s \<Longrightarrow> length (awaiting s) \<le> 1 \<Longrightarrow> submits_rendered s evs \<Longrightarrow> flights_ok s evs"
proof (induction evs arbitrary: s)
  case Nil
  then show ?case by simp
next
  case (Cons ev evs)
  from Cons.prems(3) have r: "ev = Submit \<longrightarrow> status (app s) = status (next_app s)"
    and rest: "submits_rendered (step s ev) evs"
    by simp_all
  from rendered_submit_one_flight [OF Cons.prems(1,2) r]
  have one: "length (awaiting (step s ev)) \<le> 1" .
  from page_inv_step [OF Cons.prems(1) one Cons.prems(2)] have "page_inv (step s ev)" .
  from Cons.IH [OF this one rest] Cons.prems(2) show ?case by simp
qed

lemma rendered_single_flight: "submits_rendered initial_page evs \<Longrightarrow> single_flight evs"
  unfolding single_flight_def
  by (rule rendered_flights [OF page_inv_initial]) (simp_all add: initial_page_def)

text \<open>
  Claim C7, as the code has it. The start of a generation sets the status to
  \<open>LOADING\<close> and clears the artifact and the error. As long as at most one generation
  waits for the service, the artifact and the error are never both present in any
  state the page reaches: the artifact is present exactly in the status \<open>SUCCESS\<close>,
  the error exactly in the status \<open>ERROR\<close>, and neither while idle or loading. At
  most one generation waits when every submit comes on a page that was rendered with
  the status in force.
\<close>

theorem lifecycle_slots:
  "(\<forall>a. status (handleGenerate_start a) = LOADING \<and>
        currentSvg (handleGenerate_start a) = None \<and> error (handleGenerate_start a) = None) \<and>
   (\<forall>evs. single_flight evs \<longrightarrow>
      lifecycle_ok (app (run evs)) \<and>
      (currentSvg (app (run evs)) = None \<or> error (app (run evs)) = None) \<and>
      ((currentSvg (app (run evs)) \<noteq> None) = (status (app (run evs)) = SUCCESS)) \<and>
      ((error (app (run evs)) \<noteq> None) = (status (app (run evs)) = ERROR)) \<and>
      lifecycle_ok (next_app (run evs))) \<and>
   (\<forall>evs. submits_rendered initial_page evs \<longrightarrow> single_flight evs)"
proof (intro conjI allI impI)
  fix evs assume sf: "single_flight evs"
  from page_inv_single_flight [OF sf] show ok: "lifecycle_ok (app (run evs))"
    and "lifecycle_ok (next_app (run evs))"
    by (simp_all add: page_inv_def)
  from ok show "currentSvg (app (run evs)) = None \<or> error (app (run evs)) = None"
    by (cases "status (app (run evs))") (simp_all add: lifecycle_ok_def)
  from ok show "(currentSvg (app (run evs)) \<noteq> None) = (status (app (run evs)) = SUCCESS)"
    by (cases "status (app (run evs))") (simp_all add: lifecycle_ok_def)
  from ok show "(error (app (run evs)) \<noteq> None) = (status (app (run evs)) = ERROR)"
    by (cases "status (app (run evs))") (simp_all add: lifecycle_ok_def)
next
  fix evs assume "submits_rendered initial_page evs"
  then show "single_flight evs" by (rule rendered_single_flight)
qed (simp_all add: handleGenerate_start_def)

lemma run_snoc: "run (evs @ [ev]) = step (run evs) ev"
  by (simp add: run_def)

lemma trim_cat: "trim ''cat'' = ''cat''"
  by (simp add: trim_def is_space_def)

lemma handleSubmit_cat:
  "handleSubmit (initial_input\<lparr>input := ''cat''\<rparr>) IDLE =
     [\<lparr>call_prompt = ''cat'', call_image = None, call_style = ''Flat'',
       call_traceSettings = None\<rparr>]"
  by (simp add: handleSubmit_def trim_cat initial_input_def)

lemma await_throws:
  "handleGenerate_await (\<lambda>req. Throws (JsError (Some ''fetch failed'') None None None)) c =
     Inl (JsError (Some ''Connection Error'') (Some ''fetch failed'')
            (Some ''Check your internet connection or try again later.'')
            (Some (JsError (Some ''fetch failed'') None None None)))"
  by (simp add: handleGenerate_await_def generateSvgFromPrompt_def on_catch_def classify_def
        toLowerCase_def lower_char_def lower_letters_def upper_letters_def or_else_def Let_def)

lemma await_resolves:
  "handleGenerate_await (\<lambda>req. Resolves (Some ''<svg></svg>'')) c = Inr ''<svg></svg>''"
  by (simp add: handleGenerate_await_def generateSvgFromPrompt_def interpret_text_def
        match_here_def upper_char_def lower_letters_def upper_letters_def or_else_def)

lemma run_typed_rendered:
  "run [SetInput ''cat'', Render] =
     \<lparr>app = initial_app, form = initial_input\<lparr>input := ''cat''\<rparr>, next_app = initial_app,
      next_form = initial_input\<lparr>input := ''cat''\<rparr>, awaiting = [], reading = []\<rparr>"
  by (simp add: run_def step_def initial_page_def)

lemma run_one_submit:
  "run [SetInput ''cat'', Render, Submit] =
     \<lparr>app = initial_app, form = initial_input\<lparr>input := ''cat''\<rparr>,
      next_app = \<lparr>status = LOADING, currentSvg = None, error = None\<rparr>,
      next_form = initial_input\<lparr>input := ''cat''\<rparr>,
      awaiting = [\<lparr>call_prompt = ''cat'', call_image = None, call_style = ''Flat'',
                   call_traceSettings = None\<rparr>],
      reading = []\<rparr>"
  using run_snoc [of "[SetInput ''cat'', Render]" Submit]
  by (simp add: run_typed_rendered step_def handleSubmit_cat initial_app_def
        handleGenerate_start_def)

lemma run_two_submits:
  "run [SetInput ''cat'', Render, Submit, Submit] =
     \<lparr>app = initial_app, form = initial_input\<lparr>input := ''cat''\<rparr>,
      next_app = \<lparr>status = LOADING, currentSvg = None, error = None\<rparr>,
      next_form = initial_input\<lparr>input := ''cat''\<rparr>,
      awaiting = [\<lparr>call_prompt = ''cat'', call_image = None, call_style = ''Flat'',
                   call_traceSettings = None\<rparr>,
                  \<lparr>call_prompt = ''cat'', call_image = None, call_style = ''Flat'',
                   call_traceSettings = None\<rparr>],
      reading = []\<rparr>"
  using run_snoc [of "[SetInput ''cat'', Render, Submit]" Submit]
  by (simp add: run_one_submit step_def handleSubmit_cat initial_app_def
        handleGenerate_start_def)

theorem lifecycle_slots_witness:
  "single_flight [SetInput ''cat'', Render, Submit, Render,
     Settle 0 (Throws (JsError (Some ''fetch failed'') None None None)) ''u1'' 7, Render] \<and>
   submits_rendered initial_page [SetInput ''cat'', Render, Submit, Render,
     Settle 0 (Throws (JsError (Some ''fetch failed'') None None None)) ''u1'' 7, Render] \<and>
   app (run [SetInput ''cat'', Render, Submit, Render,
     Settle 0 (Throws (JsError (Some ''fetch failed'') None None None)) ''u1'' 7, Render]) =
     \<lparr>status = ERROR, currentSvg = None,
      error = Some \<lparr>message = ''Connection Error'', details = Some ''fetch failed'',
           suggestion = Some ''Check your internet connection or try again later.''\<rparr>\<rparr> \<and>
   lifecycle_ok (app (run [SetInput ''cat'', Render, Submit, Render,
     Settle 0 (Throws (JsError (Some ''fetch failed'') None None None)) ''u1'' 7, Render]))"
proof -
  let ?r = "Throws (JsError (Some ''fetch failed'') None None None)"
  let ?evs = "[SetInput ''cat'', Render, Submit, Render, Settle 0 ?r ''u1'' 7, Render]"
  have r: "submits_rendered initial_page ?evs"
    by (simp add: step_def initial_page_def)
  from lifecycle_slots r have sf: "single_flight ?evs" by blast
  from lifecycle_slots sf have ok: "lifecycle_ok (app (run ?evs))" by blast
  have "run ?evs =
      foldl step (run [SetInput ''cat'', Render, Submit]) [Render, Settle 0 ?r ''u1'' 7, Render]"
    by (simp add: run_def)
  then have "app (run ?evs) =
     \<lparr>status = ERROR, currentSvg = None,
      error = Some \<lparr>message = ''Connection Error'', details = Some ''fetch failed'',
           suggestion = Some ''Check your internet connection or try again later.''\<rparr>\<rparr>"
    by (simp add: run_one_submit step_def await_throws handleGenerate_finish_def or_else_def)
  with r sf ok show ?thesis by simp
qed

theorem lifecycle_slots_counterexample:
  "app (run [SetInput ''cat'', Render, Submit, Submit,
     Settle 0 (Resolves (Some ''<svg></svg>'')) ''u1'' 7,
     Settle 0 (Throws (JsError (Some ''fetch failed'') None None None)) ''u2'' 8, Render]) =
     \<lparr>status = ERROR,
      currentSvg = Some \<lparr>id = ''u1'', content = ''<svg></svg>'', prompt = ''cat'', timestamp = 7\<rparr>,
      error = Some \<lparr>message = ''Connection Error'', details = Some ''fetch failed'',
           suggestion = Some ''Check your internet connection or try again later.''\<rparr>\<rparr> \<and>
   \<not> lifecycle_ok (app (run [SetInput ''cat'', Render, Submit, Submit,
     Settle 0 (Resolves (Some ''<svg></svg>'')) ''u1'' 7,
     Settle 0 (Throws (JsError (Some ''fetch failed'') None None None)) ''u2'' 8, Render]))"
proof -
  let ?ok = "Resolves (Some ''<svg></svg>'')"
  let ?r = "Throws (JsError (Some ''fetch failed'') None None None)"
  let ?evs = "[SetInput ''cat'', Render, Submit, Submit, Settle 0 ?ok ''u1'' 7,
     Settle 0 ?r ''u2'' 8, Render]"
  have "run ?evs =
      foldl step (run [SetInput ''cat'', Render, Submit, Submit])
        [Settle 0 ?ok ''u1'' 7, Settle 0 ?r ''u2'' 8, Render]"
    by (simp add: run_def)
  then have "app (run ?evs) =
     \<lparr>status = ERROR,
      currentSvg = Some \<lparr>id = ''u1'', content = ''<svg></svg>'', prompt = ''cat'', timestamp = 7\<rparr>,
      error = Some \<lparr>message = ''Connection Error'', details = Some ''fetch failed'',
           suggestion = Some ''Check your internet connection or try again later.''\<rparr>\<rparr>"
    by (simp add: run_two_submits step_def await_throws await_resolves
          handleGenerate_finish_def or_else_def)
  then show ?thesis by (simp add: lifecycle_ok_def)
qed





text \<open>
  Claim C10. After a successful generation with the empty prompt, the prompt stored in
  the artifact is a placeholder: \<^verbatim>\<open>Image to SVG Conversion\<close> when an image was
  attached, \<^verbatim>\<open>Generated SVG\<close> when none was.
\<close>

theorem empty_prompt_placeholder:
  "call_prompt c = [] \<Longrightarrow>
     status (handleGenerate_finish c (Inr svg) uuid now a) = SUCCESS \<and>
     (\<exists>g. currentSvg (handleGenerate_finish c (Inr svg) uuid now a) = Some g \<and>
          content g = svg \<and> prompt g \<noteq> [] \<and>
          (call_image c \<noteq> None \<longrightarrow> prompt g = ''Image to SVG Conversion'') \<and>
          (call_image c = None \<longrightarrow> prompt g = ''Generated SVG''))"
  by (simp add: handleGenerate_finish_def)

theorem empty_prompt_placeholder_witness:
  "currentSvg (handleGenerate_finish
      \<lparr>call_prompt = [], call_image = Some \<lparr>data = ''QUJD'', mimeType = ''image/png'',
         previewUrl = ''data:image/png;base64,QUJD''\<rparr>, call_style = ''Vector Trace'',
       call_traceSettings = Some initial_traceSettings\<rparr>
      (Inr ''<svg></svg>'') ''u1'' 7 (handleGenerate_start initial_app)) =
     Some \<lparr>id = ''u1'', content = ''<svg></svg>'', prompt = ''Image to SVG Conversion'',
           timestamp = 7\<rparr> \<and>
   currentSvg (handleGenerate_finish
      \<lparr>call_prompt = [], call_image = None, call_style = ''Flat'', call_traceSettings = None\<rparr>
      (Inr ''<svg></svg>'') ''u2'' 8 (handleGenerate_start initial_app)) =
     Some \<lparr>id = ''u2'', content = ''<svg></svg>'', prompt = ''Generated SVG'', timestamp = 8\<rparr>"
  using empty_prompt_placeholder [of "\<lparr>call_prompt = [], call_image = None, call_style = ''Flat'',
      call_traceSettings = None\<rparr>" "''<svg></svg>''" "''u2''" 8 "handleGenerate_start initial_app"]
  by (simp add: handleGenerate_finish_def handleGenerate_start_def initial_app_def)

end
